theory Spec2Isabelle
  imports Main "HOL-Library.AList"
begin

section \<open>Python values held by a ledger document\<close>

text \<open>
  A ledger document is whatever \<^verbatim>\<open>json.load\<close> returns: the engine never checks its
  shape, so the model keeps every JSON shape. A Python \<^verbatim>\<open>dict\<close> is an association list in
  insertion order; \<^verbatim>\<open>None\<close> is \<open>JNull\<close>.
\<close>

datatype json =
    JNull
  | JBool bool
  | JInt int
  | JStr string
  | JList "json list"
  | JDict "(string \<times> json) list"

text \<open>The exceptions the modelled code can meet; all are subclasses of \<^verbatim>\<open>Exception\<close>.\<close>

datatype exn = OSError | TypeError | AttributeError | JSONDecodeError | BadZipFile

text \<open>Truth value of a Python object (\<^verbatim>\<open>if x:\<close>, \<^verbatim>\<open>not x\<close>, \<^verbatim>\<open>x and y\<close>).\<close>

fun truthy :: "json \<Rightarrow> bool" where
  "truthy JNull = False"
| "truthy (JBool b) = b"
| "truthy (JInt n) = (n \<noteq> 0)"
| "truthy (JStr s) = (s \<noteq> [])"
| "truthy (JList xs) = (xs \<noteq> [])"
| "truthy (JDict d) = (d \<noteq> [])"

text \<open>\<^verbatim>\<open>x.get(k, dflt)\<close>: only a dict has the method.\<close>

fun py_get :: "json \<Rightarrow> string \<Rightarrow> json \<Rightarrow> exn + json" where
  "py_get (JDict d) k dflt = Inr (case map_of d k of None \<Rightarrow> dflt | Some v \<Rightarrow> v)"
| "py_get _ k dflt = Inl AttributeError"

text \<open>\<^verbatim>\<open>for x in v\<close>: a list gives its elements, a dict its keys, a string its characters.\<close>

fun py_iter :: "json \<Rightarrow> exn + json list" where
  "py_iter (JList xs) = Inr xs"
| "py_iter (JDict d) = Inr (map (\<lambda>kv. JStr (fst kv)) d)"
| "py_iter (JStr s) = Inr (map (\<lambda>c. JStr [c]) s)"
| "py_iter _ = Inl TypeError"

text \<open>\<^verbatim>\<open>v.items()\<close>: only a dict has the method.\<close>

fun py_items :: "json \<Rightarrow> exn + (string \<times> json) list" where
  "py_items (JDict d) = Inr d"
| "py_items _ = Inl AttributeError"

text \<open>\<^verbatim>\<open>len(v)\<close>.\<close>

fun py_len :: "json \<Rightarrow> exn + nat" where
  "py_len (JList xs) = Inr (length xs)"
| "py_len (JDict d) = Inr (length d)"
| "py_len (JStr s) = Inr (length s)"
| "py_len _ = Inl TypeError"

text \<open>\<^verbatim>\<open>Path(v)\<close>: a string is accepted, anything else raises \<^verbatim>\<open>TypeError\<close>.\<close>

fun as_path :: "json \<Rightarrow> exn + string" where
  "as_path (JStr s) = Inr s"
| "as_path _ = Inl TypeError"

text \<open>\<^verbatim>\<open>sub in s\<close> on strings.\<close>

fun str_contains :: "string \<Rightarrow> string \<Rightarrow> bool" where
  "str_contains sub [] = (sub = [])"
| "str_contains sub (c # cs) = (take (length sub) (c # cs) = sub \<or> str_contains sub cs)"

text \<open>\<^verbatim>\<open>s in v\<close> for a string \<open>s\<close>: substring of a string, element of a list, key of a dict.\<close>

fun py_contains :: "json \<Rightarrow> string \<Rightarrow> exn + bool" where
  "py_contains (JStr t) s = Inr (str_contains s t)"
| "py_contains (JList xs) s = Inr (JStr s \<in> set xs)"
| "py_contains (JDict d) s = Inr (s \<in> fst ` set d)"
| "py_contains _ s = Inl TypeError"


section \<open>The environment: file system, registry, services, power plans\<close>

text \<open>
  The operating system is outside the repository. It is modelled as a record \<open>world\<close>:
  what the engine can observe and change, and an oracle \<open>fault\<close> that says which calls
  of the environment fail (permissions, full disk, a tool that times out). The oracle is
  arbitrary and fixed, so every theorem holds for every pattern of failures, and the same
  call made twice behaves the same way.

  Known simplifications: joining two paths is concatenation with a separator; a drive
  and its root directory are not told apart, and a \<open>..\<close> component, a link or a short
  name is not resolved; \<^verbatim>\<open>reg export\<close> writes the values of the key itself, not of its
  subkeys; the text that \<^verbatim>\<open>sc query\<close> prints is read as the run state it reports.
\<close>

text \<open>
  A path is the string the code holds. The file system does not see the spelling: it
  is indexed by keys, the components of the path in lower case (\<open>fs_key\<close> below).
\<close>

type_synonym path = string

type_synonym fskey = "string list"

datatype blob =
    Raw string
  | JsonText json
  | ZipArchive "(string \<times> blob) list"
  | RegFile "((string \<times> string) \<times> (string \<times> json) list) list"

datatype node = Dir | File blob int

datatype ServiceState = STOPPED | RUNNING | PAUSED | UNKNOWN

fun state_value :: "ServiceState \<Rightarrow> string" where
  "state_value STOPPED = ''STOPPED''"
| "state_value RUNNING = ''RUNNING''"
| "state_value PAUSED = ''PAUSED''"
| "state_value UNKNOWN = ''UNKNOWN''"

datatype syscall =
    OpenRead fskey
  | OpenWrite fskey
  | WriteData fskey
  | Mkdir fskey
  | Unlink fskey
  | StatFile fskey
  | ZipOpen fskey
  | ZipAdd fskey
  | RegExport string string
  | RegImport fskey
  | RegOpenKey string string
  | RegSetValue string string string
  | ScQuery string
  | ScQc string
  | NetStart string
  | NetStop string
  | PowerShell string

record world =
  fs :: "(fskey \<times> node) list"
  registry :: "string \<times> string \<Rightarrow> (string \<times> json) list option"
  services :: "string \<Rightarrow> ServiceState option"
  service_config :: "string \<Rightarrow> (string \<times> json) list"
  power_plans :: "(string \<times> string) list"
  active_plan :: string
  now_stamp :: string
  now_iso :: string
  now_epoch :: int
  fault :: "syscall \<Rightarrow> bool"

subsection \<open>Paths\<close>

definition bslash :: char where
  "bslash = CHR 0x5C"

definition is_sep :: "char \<Rightarrow> bool" where
  "is_sep c = (c = CHR ''/'' \<or> c = bslash)"

text \<open>
  \<^verbatim>\<open>pathlib\<close> on Windows splits a path at slashes and at backslashes, and drops empty
  components (doubled or trailing separators) and \<open>.\<close> components.
\<close>

fun split_from :: "string \<Rightarrow> string \<Rightarrow> string list" where
  "split_from cur [] = [rev cur]"
| "split_from cur (c # cs) =
     (if is_sep c then rev cur # split_from [] cs else split_from (c # cur) cs)"

definition split_path :: "string \<Rightarrow> string list" where
  "split_path p = split_from [] p"

definition parts :: "path \<Rightarrow> string list" where
  "parts p = filter (\<lambda>x. x \<noteq> [] \<and> x \<noteq> ''.'') (split_path p)"

text \<open>\<^verbatim>\<open>str(Path(p))\<close>: the components joined by backslashes; the empty path is \<open>.\<close>.\<close>

fun render :: "string list \<Rightarrow> path" where
  "render [] = ''.''"
| "render [x] = x"
| "render (x # y # ys) = x @ [bslash] @ render (y # ys)"

definition str_path :: "path \<Rightarrow> string" where
  "str_path p = render (parts p)"

text \<open>Windows compares names without regard to case.\<close>

definition lower :: "char \<Rightarrow> char" where
  "lower c =
     (case map_of (zip ''ABCDEFGHIJKLMNOPQRSTUVWXYZ'' ''abcdefghijklmnopqrstuvwxyz'') c of
        None \<Rightarrow> c
      | Some l \<Rightarrow> l)"

definition fs_key :: "path \<Rightarrow> fskey" where
  "fs_key p = map (map lower) (parts p)"

definition join :: "path \<Rightarrow> string \<Rightarrow> path" where
  "join d name = d @ [bslash] @ name"

text \<open>\<open>below d k\<close>: the key \<open>k\<close> lies strictly below the key \<open>d\<close>; \<open>inside d k\<close>: at or below it.\<close>

definition inside :: "fskey \<Rightarrow> fskey \<Rightarrow> bool" where
  "inside d k = (take (length d) k = d)"

definition below :: "fskey \<Rightarrow> fskey \<Rightarrow> bool" where
  "below d k = (inside d k \<and> length d < length k)"

definition under :: "path \<Rightarrow> path \<Rightarrow> bool" where
  "under d p = below (fs_key d) (fs_key p)"

definition within :: "path \<Rightarrow> path \<Rightarrow> bool" where
  "within d p = inside (fs_key d) (fs_key p)"

text \<open>\<^verbatim>\<open>Path(p).parent\<close> and \<^verbatim>\<open>Path(p).name\<close>.\<close>

definition parent :: "path \<Rightarrow> path" where
  "parent p = render (butlast (parts p))"

definition basename :: "path \<Rightarrow> string" where
  "basename p = (if parts p = [] then [] else last (parts p))"

subsection \<open>File system\<close>

text \<open>
  What the key \<open>k\<close> holds. The empty key is the directory that relative paths start
  from; it always exists.
\<close>

definition node_at :: "world \<Rightarrow> fskey \<Rightarrow> node option" where
  "node_at w k = (if k = [] then Some Dir else map_of (fs w) k)"

definition put_key :: "fskey \<Rightarrow> node \<Rightarrow> world \<Rightarrow> world" where
  "put_key k n w = w\<lparr>fs := AList.update k n (fs w)\<rparr>"

definition del_key :: "fskey \<Rightarrow> world \<Rightarrow> world" where
  "del_key k w = w\<lparr>fs := AList.delete k (fs w)\<rparr>"

definition lookup :: "world \<Rightarrow> path \<Rightarrow> node option" where
  "lookup w p = node_at w (fs_key p)"

definition path_exists :: "world \<Rightarrow> path \<Rightarrow> bool" where
  "path_exists w p = (lookup w p \<noteq> None)"

definition file_at :: "world \<Rightarrow> fskey \<Rightarrow> bool" where
  "file_at w k = (case node_at w k of Some (File b t) \<Rightarrow> True | _ \<Rightarrow> False)"

definition is_file :: "world \<Rightarrow> path \<Rightarrow> bool" where
  "is_file w p = file_at w (fs_key p)"

definition is_dir :: "world \<Rightarrow> path \<Rightarrow> bool" where
  "is_dir w p = (lookup w p = Some Dir)"

definition put_node :: "path \<Rightarrow> node \<Rightarrow> world \<Rightarrow> world" where
  "put_node p n w = put_key (fs_key p) n w"

text \<open>\<^verbatim>\<open>with open(p, 'r') as f: json.load(f)\<close>.\<close>

definition read_json :: "world \<Rightarrow> path \<Rightarrow> exn + json" where
  "read_json w p =
     (if fault w (OpenRead (fs_key p)) then Inl OSError
      else case lookup w p of
             Some (File (JsonText j) t) \<Rightarrow> Inr j
           | Some (File b t) \<Rightarrow> Inl JSONDecodeError
           | _ \<Rightarrow> Inl OSError)"

text \<open>
  \<^verbatim>\<open>with open(p, 'w') as f: json.dump(j, f)\<close>. Opening can fail, and leaves the file as it
  was; the write can fail after the file has been truncated (a full disk), and leaves
  a file that is not a JSON document.
\<close>

definition write_json :: "world \<Rightarrow> path \<Rightarrow> json \<Rightarrow> (exn + unit) \<times> world" where
  "write_json w p j =
     (if fault w (OpenWrite (fs_key p)) \<or> is_dir w p then (Inl OSError, w)
      else if fault w (WriteData (fs_key p))
      then (Inl OSError, put_node p (File (Raw []) (now_epoch w)) w)
      else (Inr (), put_node p (File (JsonText j) (now_epoch w)) w))"

text \<open>
  \<^verbatim>\<open>shutil.copy2(src, dst)\<close>: content and modification time are copied; a destination
  that is a directory receives the file under its own name.
\<close>

definition copy2 :: "world \<Rightarrow> path \<Rightarrow> path \<Rightarrow> (exn + unit) \<times> world" where
  "copy2 w src dst =
     (case lookup w src of
        Some (File b t) \<Rightarrow>
          (let dst' = (if is_dir w dst then join dst (basename src) else dst) in
           if fault w (OpenRead (fs_key src)) \<or> fs_key dst' = fs_key src \<or> is_dir w dst'
              \<or> fault w (OpenWrite (fs_key dst'))
           then (Inl OSError, w)
           else (Inr (), put_node dst' (File b t) w))
      | _ \<Rightarrow> (Inl OSError, w))"

text \<open>
  \<^verbatim>\<open>os.mkdir\<close> creates one directory. It is refused when the path exists or the
  system denies it, and it reports the path as missing when the parent is not a
  directory.
\<close>

datatype mkdir_outcome = Created | Missing | Refused

definition os_mkdir :: "world \<Rightarrow> fskey \<Rightarrow> mkdir_outcome \<times> world" where
  "os_mkdir w k =
     (if node_at w k \<noteq> None then (Refused, w)
      else if node_at w (butlast k) \<noteq> Some Dir then (Missing, w)
      else if fault w (Mkdir k) then (Refused, w)
      else (Created, put_key k Dir w))"

text \<open>
  \<^verbatim>\<open>p.mkdir(parents=True, exist_ok=True)\<close> as \<^verbatim>\<open>pathlib\<close> runs it: \<^verbatim>\<open>os.mkdir\<close> first; when the
  path is reported missing, the parent is made in the same way and \<^verbatim>\<open>os.mkdir\<close> is tried
  once more; a refusal is an error unless the path is a directory.
\<close>

function mkdir_parents :: "world \<Rightarrow> fskey \<Rightarrow> (exn + unit) \<times> world" where
  "mkdir_parents w k =
     (case os_mkdir w k of
        (Created, w1) \<Rightarrow> (Inr (), w1)
      | (Refused, w1) \<Rightarrow>
          (if node_at w1 k = Some Dir then (Inr (), w1) else (Inl OSError, w1))
      | (Missing, w1) \<Rightarrow>
          (if k = [] then (Inl OSError, w1)
           else case mkdir_parents w1 (butlast k) of
                  (Inl e, w2) \<Rightarrow> (Inl e, w2)
                | (Inr u, w2) \<Rightarrow>
                    (case os_mkdir w2 k of
                       (Created, w3) \<Rightarrow> (Inr (), w3)
                     | (Missing, w3) \<Rightarrow> (Inl OSError, w3)
                     | (Refused, w3) \<Rightarrow>
                         (if node_at w3 k = Some Dir then (Inr (), w3) else (Inl OSError, w3)))))"
  by pat_completeness auto

termination mkdir_parents
  by (relation "measure (\<lambda>wk. length (snd wk))") (auto simp: os_mkdir_def split: if_splits)

definition mkdir :: "world \<Rightarrow> path \<Rightarrow> (exn + unit) \<times> world" where
  "mkdir w p = mkdir_parents w (fs_key p)"

text \<open>
  \<^verbatim>\<open>shutil.rmtree(d, ignore_errors=True)\<close>: everything at or below \<open>d\<close> goes, except what
  cannot be deleted and the directories above it. On a file it does nothing.
\<close>

definition blocked :: "world \<Rightarrow> fskey \<Rightarrow> bool" where
  "blocked w k = list_ex (\<lambda>qn. inside k (fst qn) \<and> fault w (Unlink (fst qn))) (fs w)"

definition rmtree :: "world \<Rightarrow> path \<Rightarrow> world" where
  "rmtree w d =
     (if is_dir w d
      then w\<lparr>fs := filter (\<lambda>kn. \<not> (inside (fs_key d) (fst kn) \<and> \<not> blocked w (fst kn))) (fs w)\<rparr>
      else w)"

text \<open>\<^verbatim>\<open>d.rglob('*')\<close>: every entry below \<open>d\<close>, in the order the system lists them.\<close>

definition rglob :: "world \<Rightarrow> path \<Rightarrow> fskey list" where
  "rglob w d = (if is_dir w d then filter (below (fs_key d)) (map fst (fs w)) else [])"

subsection \<open>Registry\<close>

text \<open>The handles of \<^verbatim>\<open>winreg\<close> are fixed integers.\<close>

definition HKEY_CLASSES_ROOT :: int where "HKEY_CLASSES_ROOT = 2147483648"
definition HKEY_CURRENT_USER :: int where "HKEY_CURRENT_USER = 2147483649"
definition HKEY_LOCAL_MACHINE :: int where "HKEY_LOCAL_MACHINE = 2147483650"
definition HKEY_USERS :: int where "HKEY_USERS = 2147483651"
definition HKEY_CURRENT_CONFIG :: int where "HKEY_CURRENT_CONFIG = 2147483653"

text \<open>\<^verbatim>\<open>RegistryManager._get_hkey_name\<close>.\<close>

definition get_hkey_name :: "int \<Rightarrow> string" where
  "get_hkey_name hkey =
     (if hkey = HKEY_LOCAL_MACHINE then ''HKLM''
      else if hkey = HKEY_CURRENT_USER then ''HKCU''
      else if hkey = HKEY_CLASSES_ROOT then ''HKCR''
      else if hkey = HKEY_USERS then ''HKU''
      else if hkey = HKEY_CURRENT_CONFIG then ''HKCC''
      else ''UNKNOWN'')"

definition valid_hive :: "string \<Rightarrow> bool" where
  "valid_hive h = (h \<in> {''HKLM'', ''HKCU'', ''HKCR'', ''HKU'', ''HKCC''})"

text \<open>
  \<^verbatim>\<open>reg export HIVE\KEY file /y\<close>: succeeds when the key exists and the file can be
  written; a time-out or a missing tool counts as a failure of the same call.
\<close>

definition reg_export :: "world \<Rightarrow> string \<Rightarrow> string \<Rightarrow> path \<Rightarrow> bool \<times> world" where
  "reg_export w hive subkey p =
     (case registry w (hive, subkey) of
        Some vals \<Rightarrow>
          (if \<not> valid_hive hive \<or> fault w (RegExport hive subkey) \<or> fault w (OpenWrite (fs_key p))
              \<or> is_dir w p
           then (False, w)
           else (True, put_node p (File (RegFile [((hive, subkey), vals)]) (now_epoch w)) w))
      | None \<Rightarrow> (False, w))"

text \<open>\<^verbatim>\<open>reg import file\<close>: every value in the file is written over the live one.\<close>

definition merge_values :: "(string \<times> json) list \<Rightarrow> (string \<times> json) list \<Rightarrow> (string \<times> json) list" where
  "merge_values new old = fold (\<lambda>nv acc. AList.update (fst nv) (snd nv) acc) new old"

definition import_key :: "(string \<times> string) \<times> (string \<times> json) list \<Rightarrow> world \<Rightarrow> world" where
  "import_key kv w =
     w\<lparr>registry := (registry w)(fst kv \<mapsto>
          merge_values (snd kv) (case registry w (fst kv) of None \<Rightarrow> [] | Some old \<Rightarrow> old))\<rparr>"

definition reg_import :: "world \<Rightarrow> path \<Rightarrow> bool \<times> world" where
  "reg_import w p =
     (if fault w (RegImport (fs_key p)) then (False, w)
      else case lookup w p of
             Some (File (RegFile keys) t) \<Rightarrow> (True, fold import_key keys w)
           | _ \<Rightarrow> (False, w))"

text \<open>
  \<^verbatim>\<open>with winreg.CreateKey(hkey, subkey) as key: winreg.SetValueEx(key, name, 0, REG_SZ, value)\<close>.
  The key is created before the value is checked, so a value that is not a string
  leaves an empty key behind.
\<close>

definition reg_create_set :: "world \<Rightarrow> int \<Rightarrow> json \<Rightarrow> json \<Rightarrow> json \<Rightarrow> (exn + unit) \<times> world" where
  "reg_create_set w hkey subkey name val =
     (case subkey of
        JStr sk \<Rightarrow>
          (let hive = get_hkey_name hkey in
           if \<not> valid_hive hive \<or> fault w (RegSetValue hive sk (case name of JStr n \<Rightarrow> n | _ \<Rightarrow> []))
           then (Inl OSError, w)
           else
             (let old = (case registry w (hive, sk) of None \<Rightarrow> [] | Some vs \<Rightarrow> vs) in
              case (name, val) of
                (JStr n, JStr v) \<Rightarrow>
                  (Inr (), w\<lparr>registry := (registry w)((hive, sk) \<mapsto> AList.update n (JStr v) old)\<rparr>)
              | _ \<Rightarrow> (Inl TypeError, w\<lparr>registry := (registry w)((hive, sk) \<mapsto> old)\<rparr>)))
      | _ \<Rightarrow> (Inl TypeError, w))"

subsection \<open>Services and power plans\<close>

text \<open>\<^verbatim>\<open>sc query name\<close>, \<^verbatim>\<open>net start name\<close>, \<^verbatim>\<open>net stop name\<close>.\<close>

definition sc_query :: "world \<Rightarrow> string \<Rightarrow> ServiceState option" where
  "sc_query w name = (if fault w (ScQuery name) then None else services w name)"

definition net_start :: "world \<Rightarrow> string \<Rightarrow> bool \<times> world" where
  "net_start w name =
     (if fault w (NetStart name) \<or> services w name = None then (False, w)
      else (True, w\<lparr>services := (services w)(name \<mapsto> RUNNING)\<rparr>))"

definition net_stop :: "world \<Rightarrow> string \<Rightarrow> bool \<times> world" where
  "net_stop w name =
     (if fault w (NetStop name) \<or> services w name = None then (False, w)
      else (True, w\<lparr>services := (services w)(name \<mapsto> STOPPED)\<rparr>))"

text \<open>
  \<^verbatim>\<open>shell.run_powershell\<close> never raises: it returns a \<^verbatim>\<open>CommandResult\<close>, here the pair of
  \<^verbatim>\<open>success\<close> and \<^verbatim>\<open>stdout\<close>.
\<close>

definition GET_ACTIVE_PLAN :: string where
  "GET_ACTIVE_PLAN = ''Get-WmiObject Win32_PowerPlan IsActive''"

definition ULTIMATE_PERFORMANCE :: string where
  "ULTIMATE_PERFORMANCE = ''e9a42b02-d5df-448d-aa00-03f14749eb61''"

definition HIGH_PERFORMANCE :: string where
  "HIGH_PERFORMANCE = ''8c5e7fda-e8bf-4a96-9a85-a6e23a8c635c''"

definition query_active_plan :: "world \<Rightarrow> bool \<times> string" where
  "query_active_plan w =
     (if fault w (PowerShell GET_ACTIVE_PLAN) then (False, [])
      else (True, active_plan w @ '' '' @
              (case map_of (power_plans w) (active_plan w) of None \<Rightarrow> [] | Some n \<Rightarrow> n)))"

definition powercfg_setactive :: "world \<Rightarrow> string \<Rightarrow> bool \<times> world" where
  "powercfg_setactive w guid =
     (if fault w (PowerShell guid) \<or> map_of (power_plans w) guid = None then (False, w)
      else (True, w\<lparr>active_plan := guid\<rparr>))"


section \<open>Exceptions and state\<close>

text \<open>
  Every Python function is a function from the world to a result and the world after
  it; \<open>Inl e\<close> is the exception \<open>e\<close> raised. What was changed before the exception
  stays changed.
\<close>

type_synonym 'a result = "(exn + 'a) \<times> world"

definition ret :: "'a \<Rightarrow> world \<Rightarrow> 'a result" where
  "ret v w = (Inr v, w)"

definition lift :: "exn + 'a \<Rightarrow> world \<Rightarrow> 'a result" where
  "lift r w = (r, w)"

definition bind_r :: "'a result \<Rightarrow> ('a \<Rightarrow> world \<Rightarrow> 'b result) \<Rightarrow> 'b result" where
  "bind_r m k = (case m of (Inl e, w) \<Rightarrow> (Inl e, w) | (Inr v, w) \<Rightarrow> k v w)"

text \<open>\<^verbatim>\<open>try: ... except Exception: return d\<close>.\<close>

definition catch :: "'a result \<Rightarrow> 'a \<Rightarrow> 'a result" where
  "catch m d = (case m of (Inl e, w) \<Rightarrow> (Inr d, w) | (Inr v, w) \<Rightarrow> (Inr v, w))"

definition raises :: "'a result \<Rightarrow> bool" where
  "raises m = (case fst m of Inl e \<Rightarrow> True | Inr v \<Rightarrow> False)"


section \<open>backup.py: the ledger and the captures\<close>

definition backup_root :: path where
  "backup_root = ''~/AppData/Local/NeutronsOptimizer/backups''"

definition registry_backups :: path where
  "registry_backups = join backup_root ''registry''"

definition file_backups :: path where
  "file_backups = join backup_root ''files''"

definition info_file :: "string \<Rightarrow> path" where
  "info_file backup_id = join backup_root (backup_id @ ''_info.json'')"

subsection \<open>\<^verbatim>\<open>BackupManager._update_backup_info\<close>\<close>

text \<open>
  The section update on the loaded document. A document that is not a dict raises
  \<^verbatim>\<open>TypeError\<close> at \<^verbatim>\<open>section not in backup_info\<close> or at the subscript that follows it.
\<close>

definition upsert_keyed :: "(string \<times> json) list \<Rightarrow> string \<Rightarrow> string \<Rightarrow> json \<Rightarrow> exn + json" where
  "upsert_keyed d section k data =
     (let d1 = (if map_of d section = None then AList.update section (JDict []) d else d) in
      case map_of d1 section of
        Some (JDict s) \<Rightarrow> Inr (JDict (AList.update section (JDict (AList.update k data s)) d1))
      | _ \<Rightarrow> Inl TypeError)"

definition append_listed :: "(string \<times> json) list \<Rightarrow> string \<Rightarrow> json \<Rightarrow> exn + json" where
  "append_listed d section data =
     (let d1 = (if map_of d section = None then AList.update section (JList []) d else d) in
      case map_of d1 section of
        Some (JList xs) \<Rightarrow> Inr (JDict (AList.update section (JList (xs @ [data])) d1))
      | _ \<Rightarrow> Inr (JDict (AList.update section data d1)))"

definition update_section :: "json \<Rightarrow> string \<Rightarrow> json \<Rightarrow> string option \<Rightarrow> exn + json" where
  "update_section backup_info section data key =
     (case backup_info of
        JDict d \<Rightarrow>
          (case key of
             Some k \<Rightarrow> (if k \<noteq> [] then upsert_keyed d section k data
                        else append_listed d section data)
           | None \<Rightarrow> append_listed d section data)
      | _ \<Rightarrow> Inl TypeError)"

definition update_backup_info :: "world \<Rightarrow> string \<Rightarrow> string \<Rightarrow> json \<Rightarrow> string option \<Rightarrow> unit result" where
  "update_backup_info w backup_id section data key =
     catch
       (bind_r (if path_exists w (info_file backup_id)
                then lift (read_json w (info_file backup_id)) w
                else ret (JDict []) w)
          (\<lambda>backup_info w1.
             bind_r (lift (update_section backup_info section data key) w1)
               (\<lambda>new_info w2. write_json w2 (info_file backup_id) new_info)))
       ()"

subsection \<open>\<^verbatim>\<open>BackupManager.get_backup_info\<close>, \<^verbatim>\<open>create_operation_backup\<close>\<close>

definition get_backup_info :: "world \<Rightarrow> string \<Rightarrow> json result" where
  "get_backup_info w backup_id =
     catch
       (if path_exists w (info_file backup_id)
        then lift (read_json w (info_file backup_id)) w
        else ret JNull w)
       JNull"

definition new_backup_info :: "string \<Rightarrow> string \<Rightarrow> json" where
  "new_backup_info operation_name timestamp =
     JDict [(''operation'', JStr operation_name),
            (''timestamp'', JStr timestamp),
            (''backup_id'', JStr (operation_name @ ''_'' @ timestamp)),
            (''registry_backups'', JList []),
            (''file_backups'', JList []),
            (''service_states'', JDict []),
            (''power_settings'', JDict []),
            (''startup_items'', JList [])]"

text \<open>No \<^verbatim>\<open>try\<close> surrounds the body: what \<^verbatim>\<open>open\<close> and \<^verbatim>\<open>json.dump\<close> raise reaches the caller.\<close>

definition create_operation_backup :: "world \<Rightarrow> string \<Rightarrow> string result" where
  "create_operation_backup w operation_name =
     (let timestamp = now_stamp w;
          backup_id = operation_name @ ''_'' @ timestamp in
      bind_r (write_json w (info_file backup_id) (new_backup_info operation_name timestamp))
        (\<lambda>u w1. ret backup_id w1))"

subsection \<open>registry.py: \<^verbatim>\<open>backup_key\<close>, \<^verbatim>\<open>restore_from_backup\<close>, \<^verbatim>\<open>write_value\<close>, \<^verbatim>\<open>enumerate_values\<close>\<close>

definition safe_subkey :: "string \<Rightarrow> string" where
  "safe_subkey subkey = map (\<lambda>c. if c = bslash \<or> c = CHR ''/'' then CHR ''_'' else c) subkey"

text \<open>
  \<^verbatim>\<open>backup_key\<close> is also called by \<^verbatim>\<open>write_value\<close> with a subkey read from a ledger document,
  so the subkey is any value: \<^verbatim>\<open>subkey.replace\<close> raises on what is not a string.
\<close>

definition backup_key :: "world \<Rightarrow> int \<Rightarrow> json \<Rightarrow> string option result" where
  "backup_key w hkey subkey =
     catch
       (case subkey of
          JStr sk \<Rightarrow>
            (let hkey_name = get_hkey_name hkey;
                 timestamp = now_stamp w;
                 backup_filename = hkey_name @ ''_'' @ safe_subkey sk @ ''_'' @ timestamp @ ''.reg'';
                 backup_path = join registry_backups backup_filename in
             case reg_export w hkey_name sk (str_path backup_path) of
               (True, w1) \<Rightarrow> ret (Some (str_path backup_path)) w1
             | (False, w1) \<Rightarrow> ret None w1)
        | _ \<Rightarrow> lift (Inl AttributeError) w)
       None"

definition restore_from_backup :: "world \<Rightarrow> path \<Rightarrow> bool result" where
  "restore_from_backup w backup_path =
     catch
       (if \<not> path_exists w backup_path then ret False w
        else case reg_import w backup_path of (ok, w1) \<Rightarrow> ret ok w1)
       False"

definition write_value :: "world \<Rightarrow> int \<Rightarrow> json \<Rightarrow> json \<Rightarrow> json \<Rightarrow> bool result" where
  "write_value w hkey subkey value_name val =
     bind_r (backup_key w hkey subkey)
       (\<lambda>backup_path w1.
          case reg_create_set w1 hkey subkey value_name val of
            (Inr u, w2) \<Rightarrow> ret True w2
          | (Inl e, w2) \<Rightarrow>
              (case backup_path of
                 Some bp \<Rightarrow> (if bp \<noteq> [] then bind_r (restore_from_backup w2 bp) (\<lambda>r w3. ret False w3)
                             else ret False w2)
               | None \<Rightarrow> ret False w2))"

definition enumerate_values :: "world \<Rightarrow> int \<Rightarrow> string \<Rightarrow> (string \<times> json) list" where
  "enumerate_values w hkey subkey =
     (let hive = get_hkey_name hkey in
      if \<not> valid_hive hive \<or> fault w (RegOpenKey hive subkey) then []
      else case registry w (hive, subkey) of
             None \<Rightarrow> []
           | Some vals \<Rightarrow> fold (\<lambda>nv acc. AList.update (fst nv) (snd nv) acc) vals [])"

subsection \<open>services.py: \<^verbatim>\<open>get_service_status\<close>, \<^verbatim>\<open>start_service\<close>, \<^verbatim>\<open>stop_service\<close>, \<^verbatim>\<open>get_service_info\<close>\<close>

definition get_service_status :: "world \<Rightarrow> string \<Rightarrow> ServiceState" where
  "get_service_status w name = (case sc_query w name of None \<Rightarrow> UNKNOWN | Some s \<Rightarrow> s)"

definition start_service :: "world \<Rightarrow> string \<Rightarrow> bool result" where
  "start_service w name =
     catch
       (if get_service_status w name = RUNNING then ret True w
        else case net_start w name of (ok, w1) \<Rightarrow> ret ok w1)
       False"

definition stop_service :: "world \<Rightarrow> string \<Rightarrow> bool result" where
  "stop_service w name =
     catch
       (if get_service_status w name = STOPPED then ret True w
        else case net_stop w name of (ok, w1) \<Rightarrow> ret ok w1)
       False"

definition get_service_info :: "world \<Rightarrow> string \<Rightarrow> (string \<times> json) list" where
  "get_service_info w name =
     (if fault w (ScQc name) \<or> services w name = None then []
      else AList.update ''STATUS'' (JStr (state_value (get_service_status w name)))
             (service_config w name))"

subsection \<open>The captures of \<^verbatim>\<open>BackupManager\<close>\<close>

definition backup_registry_key :: "world \<Rightarrow> string \<Rightarrow> int \<Rightarrow> string \<Rightarrow> string \<Rightarrow> bool result" where
  "backup_registry_key w backup_id hkey subkey description =
     catch
       (bind_r (backup_key w hkey (JStr subkey))
          (\<lambda>backup_path w1.
             case backup_path of
               Some bp \<Rightarrow>
                 (if bp \<noteq> [] then
                    bind_r (update_backup_info w1 backup_id ''registry_backups''
                              (JDict [(''hkey'', JStr (get_hkey_name hkey)),
                                      (''subkey'', JStr subkey),
                                      (''backup_path'', JStr bp),
                                      (''description'', JStr description)]) None)
                      (\<lambda>u w2. ret True w2)
                  else ret False w1)
             | None \<Rightarrow> ret False w1))
       False"

definition safe_name :: "string \<Rightarrow> string" where
  "safe_name source =
     map (\<lambda>c. if c = CHR '':'' \<or> c = bslash \<or> c = CHR ''/'' then CHR ''_'' else c) source"

definition backup_file :: "world \<Rightarrow> string \<Rightarrow> string \<Rightarrow> string \<Rightarrow> bool result" where
  "backup_file w backup_id file_path description =
     catch
       (if \<not> path_exists w file_path then ret True w
        else
          (let backup_name = backup_id @ ''_'' @ safe_name (str_path file_path);
               backup_path = join file_backups backup_name in
           bind_r (copy2 w file_path backup_path)
             (\<lambda>u w1.
                bind_r (update_backup_info w1 backup_id ''file_backups''
                          (JDict [(''original_path'', JStr (str_path file_path)),
                                  (''backup_path'', JStr (str_path backup_path)),
                                  (''description'', JStr description)]) None)
                  (\<lambda>u w2. ret True w2))))
       False"

text \<open>
  The archive of a directory: one member for each file below it that can be added; a
  file that cannot be added is skipped with a warning.
\<close>

text \<open>\<^verbatim>\<open>file_path.relative_to(source)\<close> for an entry listed below \<open>source\<close>.\<close>

definition relative_to :: "fskey \<Rightarrow> fskey \<Rightarrow> string" where
  "relative_to d k = render (drop (length d) k)"

definition zip_members :: "world \<Rightarrow> path \<Rightarrow> (string \<times> blob) list" where
  "zip_members w source =
     concat (map (\<lambda>k. case node_at w k of
                         Some (File b t) \<Rightarrow>
                           (if fault w (ZipAdd k) \<or> fault w (OpenRead k) then []
                            else [(relative_to (fs_key source) k, b)])
                       | _ \<Rightarrow> [])
                 (rglob w source))"

definition zip_create :: "world \<Rightarrow> path \<Rightarrow> path \<Rightarrow> unit result" where
  "zip_create w backup_path source =
     (if fault w (OpenWrite (fs_key backup_path)) \<or> is_dir w backup_path then (Inl OSError, w)
      else (Inr (), put_node backup_path (File (ZipArchive (zip_members w source)) (now_epoch w)) w))"

definition backup_directory :: "world \<Rightarrow> string \<Rightarrow> string \<Rightarrow> string \<Rightarrow> bool result" where
  "backup_directory w backup_id dir_path description =
     catch
       (if \<not> path_exists w dir_path then ret True w
        else
          (let backup_name = backup_id @ ''_'' @ safe_name (str_path dir_path) @ ''.zip'';
               backup_path = join file_backups backup_name in
           bind_r (zip_create w backup_path dir_path)
             (\<lambda>u w1.
                bind_r (update_backup_info w1 backup_id ''file_backups''
                          (JDict [(''original_path'', JStr (str_path dir_path)),
                                  (''backup_path'', JStr (str_path backup_path)),
                                  (''type'', JStr ''directory_zip''),
                                  (''description'', JStr description)]) None)
                  (\<lambda>u w2. ret True w2))))
       False"

definition service_backup :: "string \<Rightarrow> ServiceState \<Rightarrow> (string \<times> json) list \<Rightarrow> json" where
  "service_backup service_name state info =
     JDict [(''name'', JStr service_name),
            (''state'', JStr (state_value state)),
            (''info'', JDict info)]"

definition backup_service_state :: "world \<Rightarrow> string \<Rightarrow> string \<Rightarrow> bool result" where
  "backup_service_state w backup_id service_name =
     catch
       (let state = get_service_status w service_name;
            info = get_service_info w service_name in
        bind_r (update_backup_info w backup_id ''service_states''
                  (service_backup service_name state info) (Some service_name))
          (\<lambda>u w1. ret True w1))
       False"

definition backup_power_plan :: "world \<Rightarrow> string \<Rightarrow> bool result" where
  "backup_power_plan w backup_id =
     catch
       (case query_active_plan w of
          (True, stdout) \<Rightarrow>
            bind_r (update_backup_info w backup_id ''power_settings''
                      (JDict [(''output'', JStr stdout), (''timestamp'', JStr (now_iso w))]) None)
              (\<lambda>u w1. ret True w1)
        | (False, stdout) \<Rightarrow> ret False w)
       False"

definition RUN_KEY :: string where
  "RUN_KEY = ''Software'' @ [bslash] @ ''Microsoft'' @ [bslash] @ ''Windows'' @ [bslash]
             @ ''CurrentVersion'' @ [bslash] @ ''Run''"

definition RUNONCE_KEY :: string where
  "RUNONCE_KEY = ''Software'' @ [bslash] @ ''Microsoft'' @ [bslash] @ ''Windows'' @ [bslash]
             @ ''CurrentVersion'' @ [bslash] @ ''RunOnce''"

definition startup_locations :: "(int \<times> string) list" where
  "startup_locations =
     [(HKEY_CURRENT_USER, RUN_KEY), (HKEY_LOCAL_MACHINE, RUN_KEY),
      (HKEY_CURRENT_USER, RUNONCE_KEY), (HKEY_LOCAL_MACHINE, RUNONCE_KEY)]"

definition startup_item :: "int \<Rightarrow> string \<Rightarrow> string \<times> json \<Rightarrow> json" where
  "startup_item hkey subkey nv =
     JDict [(''hkey'', JStr (get_hkey_name hkey)),
            (''subkey'', JStr subkey),
            (''name'', JStr (fst nv)),
            (''value'', snd nv),
            (''type'', JStr ''registry'')]"

definition collect_startup_items :: "world \<Rightarrow> json list" where
  "collect_startup_items w =
     concat (map (\<lambda>loc. map (startup_item (fst loc) (snd loc))
                           (enumerate_values w (fst loc) (snd loc)))
                 startup_locations)"

text \<open>The whole list of items is handed to \<^verbatim>\<open>_update_backup_info\<close> as one piece of data.\<close>

definition backup_startup_items :: "world \<Rightarrow> string \<Rightarrow> bool result" where
  "backup_startup_items w backup_id =
     catch
       (bind_r (update_backup_info w backup_id ''startup_items''
                  (JList (collect_startup_items w)) None)
          (\<lambda>u w1. ret True w1))
       False"

subsection \<open>\<^verbatim>\<open>BackupManager.cleanup_old_backups\<close>\<close>

definition mtime_at :: "world \<Rightarrow> fskey \<Rightarrow> int" where
  "mtime_at w k = (case node_at w k of Some (File b t) \<Rightarrow> t | _ \<Rightarrow> 0)"

definition mtime :: "world \<Rightarrow> path \<Rightarrow> int" where
  "mtime w p = mtime_at w (fs_key p)"

text \<open>
  The loop over \<^verbatim>\<open>rglob("*")\<close>. An exception of \<^verbatim>\<open>stat\<close> or \<^verbatim>\<open>unlink\<close> leaves the loop, and
  the count reached so far is returned.
\<close>

fun cleanup_loop :: "int \<Rightarrow> fskey list \<Rightarrow> nat \<Rightarrow> world \<Rightarrow> nat \<times> world" where
  "cleanup_loop cutoff_time [] removed_count w = (removed_count, w)"
| "cleanup_loop cutoff_time (k # ks) removed_count w =
     (if file_at w k then
        (if fault w (StatFile k) then (removed_count, w)
         else if mtime_at w k < cutoff_time then
           (if fault w (Unlink k) then (removed_count, w)
            else cleanup_loop cutoff_time ks (Suc removed_count) (del_key k w))
         else cleanup_loop cutoff_time ks removed_count w)
      else cleanup_loop cutoff_time ks removed_count w)"

definition cleanup_old_backups :: "world \<Rightarrow> int \<Rightarrow> nat result" where
  "cleanup_old_backups w days =
     (let cutoff_time = now_epoch w - days * 24 * 3600 in
      case cleanup_loop cutoff_time (rglob w backup_root) 0 w of
        (removed_count, w1) \<Rightarrow> ret removed_count w1)"


section \<open>restore.py\<close>

subsection \<open>Registry entries\<close>

definition restore_registry_backup :: "world \<Rightarrow> json \<Rightarrow> bool result" where
  "restore_registry_backup w reg_backup =
     catch
       (bind_r (lift (py_get reg_backup ''backup_path'' JNull) w)
          (\<lambda>backup_path w1.
             if \<not> truthy backup_path then ret False w1
             else bind_r (lift (as_path backup_path) w1)
                    (\<lambda>p w2. if \<not> path_exists w2 p then ret False w2
                             else restore_from_backup w2 p)))
       False"

subsection \<open>File and directory entries\<close>

definition restore_single_file :: "world \<Rightarrow> json \<Rightarrow> path \<Rightarrow> bool result" where
  "restore_single_file w original_path backup_path =
     catch
       (bind_r (lift (as_path original_path) w)
          (\<lambda>original w1.
             bind_r (mkdir w1 (parent original))
               (\<lambda>u w2. bind_r (copy2 w2 backup_path original) (\<lambda>u w3. ret True w3))))
       False"

text \<open>
  \<^verbatim>\<open>zipfile.ZipFile(p, 'r')\<close>. An archive is the list of its file members, each under
  the relative name that extraction gives it (\<^verbatim>\<open>zipfile\<close> strips a drive, \<open>..\<close> components
  and the characters that Windows does not allow in a name).
\<close>

definition zip_open :: "world \<Rightarrow> path \<Rightarrow> exn + (string \<times> blob) list" where
  "zip_open w p =
     (if fault w (ZipOpen (fs_key p)) then Inl OSError
      else case lookup w p of
             Some (File (ZipArchive ms) t) \<Rightarrow> Inr ms
           | Some (File b t) \<Rightarrow> Inl BadZipFile
           | _ \<Rightarrow> Inl OSError)"

definition member_key :: "string \<Rightarrow> fskey" where
  "member_key name = filter (\<lambda>x. x \<noteq> ''..'') (fs_key name)"

text \<open>
  One member of \<^verbatim>\<open>extractall\<close>: the directory of the member is made when it does not
  exist (\<^verbatim>\<open>os.makedirs\<close>, which on a missing directory proceeds as \<open>mkdir_parents\<close>), then
  the file is opened for writing. The file gets the time of the extraction.
\<close>

definition extract_member :: "world \<Rightarrow> path \<Rightarrow> string \<times> blob \<Rightarrow> (exn + unit) \<times> world" where
  "extract_member w d m =
     (let q = fs_key d @ member_key (fst m);
          upperdirs = butlast q in
      case (if node_at w upperdirs = None then mkdir_parents w upperdirs else (Inr (), w)) of
        (Inl e, w1) \<Rightarrow> (Inl e, w1)
      | (Inr u, w1) \<Rightarrow>
          (if node_at w1 q = Some Dir \<or> node_at w1 upperdirs \<noteq> Some Dir \<or> fault w1 (OpenWrite q)
           then (Inl OSError, w1)
           else (Inr (), put_key q (File (snd m) (now_epoch w1)) w1)))"

text \<open>\<^verbatim>\<open>extractall\<close> stops at the first member it cannot write.\<close>

fun extractall :: "world \<Rightarrow> path \<Rightarrow> (string \<times> blob) list \<Rightarrow> unit result" where
  "extractall w d [] = (Inr (), w)"
| "extractall w d (m # ms) =
     (case extract_member w d m of
        (Inl e, w1) \<Rightarrow> (Inl e, w1)
      | (Inr u, w1) \<Rightarrow> extractall w1 d ms)"

definition restore_directory_from_zip :: "world \<Rightarrow> json \<Rightarrow> path \<Rightarrow> bool result" where
  "restore_directory_from_zip w original_path backup_zip =
     catch
       (bind_r (lift (as_path original_path) w)
          (\<lambda>original_dir w1.
             (let w2 = (if path_exists w1 original_dir then rmtree w1 original_dir else w1) in
              bind_r (mkdir w2 original_dir)
                (\<lambda>u w3.
                   bind_r (lift (zip_open w3 backup_zip) w3)
                     (\<lambda>members w4.
                        bind_r (extractall w4 original_dir members) (\<lambda>u w5. ret True w5))))))
       False"

definition restore_file_backup :: "world \<Rightarrow> json \<Rightarrow> bool result" where
  "restore_file_backup w file_backup =
     catch
       (bind_r (lift (py_get file_backup ''original_path'' JNull) w)
          (\<lambda>original_path w1.
             bind_r (lift (py_get file_backup ''backup_path'' JNull) w1)
               (\<lambda>backup_path w2.
                  bind_r (lift (py_get file_backup ''type'' (JStr ''file'')) w2)
                    (\<lambda>backup_type w3.
                       if \<not> truthy backup_path then ret False w3
                       else bind_r (lift (as_path backup_path) w3)
                              (\<lambda>p w4.
                                 if \<not> path_exists w4 p then ret False w4
                                 else if backup_type = JStr ''directory_zip''
                                 then restore_directory_from_zip w4 original_path p
                                 else restore_single_file w4 original_path p)))))
       False"

subsection \<open>Service entries\<close>

definition restore_service_state :: "world \<Rightarrow> string \<Rightarrow> json \<Rightarrow> bool result" where
  "restore_service_state w service_name service_data =
     catch
       (bind_r (lift (py_get service_data ''state'' (JStr ''UNKNOWN'')) w)
          (\<lambda>target_state w1.
             if target_state = JStr ''RUNNING'' then start_service w1 service_name
             else if target_state = JStr ''STOPPED'' then stop_service w1 service_name
             else ret True w1))
       False"

subsection \<open>Power plan\<close>

definition activate_high_performance :: "world \<Rightarrow> bool result" where
  "activate_high_performance w =
     (case powercfg_setactive w HIGH_PERFORMANCE of (ok, w1) \<Rightarrow> ret ok w1)"

definition restore_power_plan :: "world \<Rightarrow> json \<Rightarrow> bool result" where
  "restore_power_plan w power_settings =
     catch
       (bind_r (lift (py_get power_settings ''output'' (JStr [])) w)
          (\<lambda>output w1.
             bind_r (lift (py_contains output ''Ultimate Performance'') w1)
               (\<lambda>ultimate w2.
                  if ultimate then
                    (case powercfg_setactive w2 ULTIMATE_PERFORMANCE of
                       (True, w3) \<Rightarrow> ret True w3
                     | (False, w3) \<Rightarrow> activate_high_performance w3)
                  else activate_high_performance w2)))
       False"

subsection \<open>Startup items\<close>

text \<open>\<^verbatim>\<open>hkey_map.get(hkey_name)\<close>: a list or a dict is not hashable.\<close>

fun hkey_map_get :: "json \<Rightarrow> exn + int option" where
  "hkey_map_get (JStr h) =
     Inr (if h = ''HKLM'' then Some HKEY_LOCAL_MACHINE
          else if h = ''HKCU'' then Some HKEY_CURRENT_USER
          else if h = ''HKCR'' then Some HKEY_CLASSES_ROOT
          else if h = ''HKU'' then Some HKEY_USERS
          else if h = ''HKCC'' then Some HKEY_CURRENT_CONFIG
          else None)"
| "hkey_map_get (JList xs) = Inl TypeError"
| "hkey_map_get (JDict d) = Inl TypeError"
| "hkey_map_get _ = Inr None"

text \<open>
  The body of the loop for one item; the result says whether \<^verbatim>\<open>success_count\<close> is
  incremented. The inner \<^verbatim>\<open>try\<close> turns every exception into "not counted".
\<close>

definition restore_startup_item :: "world \<Rightarrow> json \<Rightarrow> bool result" where
  "restore_startup_item w item =
     catch
       (bind_r (lift (py_get item ''type'' JNull) w)
          (\<lambda>ty w1.
             if ty = JStr ''registry'' then
               bind_r (lift (py_get item ''hkey'' JNull) w1) (\<lambda>hkey_name w2.
               bind_r (lift (py_get item ''subkey'' JNull) w2) (\<lambda>subkey w3.
               bind_r (lift (py_get item ''name'' JNull) w3) (\<lambda>name w4.
               bind_r (lift (py_get item ''value'' JNull) w4) (\<lambda>val w5.
               bind_r (lift (hkey_map_get hkey_name) w5) (\<lambda>hkey w6.
                 case hkey of
                   Some h \<Rightarrow>
                     (if h \<noteq> 0 \<and> truthy subkey \<and> truthy name \<and> truthy val
                      then write_value w6 h subkey name val
                      else ret False w6)
                 | None \<Rightarrow> ret False w6)))))
             else ret False w1))
       False"

fun startup_loop :: "world \<Rightarrow> json list \<Rightarrow> nat \<Rightarrow> nat result" where
  "startup_loop w [] success_count = (Inr success_count, w)"
| "startup_loop w (item # items) success_count =
     (case restore_startup_item w item of
        (Inl e, w1) \<Rightarrow> (Inl e, w1)
      | (Inr counted, w1) \<Rightarrow>
          startup_loop w1 items (if counted then Suc success_count else success_count))"

definition restore_startup_items :: "world \<Rightarrow> json \<Rightarrow> bool result" where
  "restore_startup_items w startup_items =
     catch
       (bind_r (lift (py_len startup_items) w)
          (\<lambda>total_items w1.
             bind_r (lift (py_iter startup_items) w1)
               (\<lambda>items w2.
                  bind_r (startup_loop w2 items 0)
                    (\<lambda>success_count w3. ret (success_count > 0 \<or> total_items = 0) w3))))
       False"

subsection \<open>\<^verbatim>\<open>RestoreManager.restore_operation\<close>\<close>

text \<open>
  \<^verbatim>\<open>for e in entries: if not restore(e): success = False\<close>. An exception raised by the
  iteration itself leaves the loop; the per-entry functions catch their own.
\<close>

fun restore_each :: "(world \<Rightarrow> 'e \<Rightarrow> bool result) \<Rightarrow> 'e list \<Rightarrow> bool \<Rightarrow> world \<Rightarrow> bool result" where
  "restore_each f [] success w = (Inr success, w)"
| "restore_each f (e # es) success w =
     (case f w e of
        (Inl x, w1) \<Rightarrow> (Inl x, w1)
      | (Inr ok, w1) \<Rightarrow> restore_each f es (success \<and> ok) w1)"

definition restore_registry_section :: "json \<Rightarrow> bool \<Rightarrow> world \<Rightarrow> bool result" where
  "restore_registry_section backup_info success w =
     bind_r (lift (py_get backup_info ''registry_backups'' JNull) w)
       (\<lambda>section w1.
          if truthy section
          then bind_r (lift (py_iter section) w1)
                 (\<lambda>entries w2. restore_each restore_registry_backup entries success w2)
          else ret success w1)"

definition restore_file_section :: "json \<Rightarrow> bool \<Rightarrow> world \<Rightarrow> bool result" where
  "restore_file_section backup_info success w =
     bind_r (lift (py_get backup_info ''file_backups'' JNull) w)
       (\<lambda>section w1.
          if truthy section
          then bind_r (lift (py_iter section) w1)
                 (\<lambda>entries w2. restore_each restore_file_backup entries success w2)
          else ret success w1)"

definition restore_service_section :: "json \<Rightarrow> bool \<Rightarrow> world \<Rightarrow> bool result" where
  "restore_service_section backup_info success w =
     bind_r (lift (py_get backup_info ''service_states'' JNull) w)
       (\<lambda>section w1.
          if truthy section
          then bind_r (lift (py_items section) w1)
                 (\<lambda>entries w2.
                    restore_each (\<lambda>w' e. restore_service_state w' (fst e) (snd e)) entries success w2)
          else ret success w1)"

definition restore_power_section :: "json \<Rightarrow> bool \<Rightarrow> world \<Rightarrow> bool result" where
  "restore_power_section backup_info success w =
     bind_r (lift (py_get backup_info ''power_settings'' JNull) w)
       (\<lambda>section w1.
          if truthy section
          then bind_r (restore_power_plan w1 section) (\<lambda>ok w2. ret (success \<and> ok) w2)
          else ret success w1)"

definition restore_startup_section :: "json \<Rightarrow> bool \<Rightarrow> world \<Rightarrow> bool result" where
  "restore_startup_section backup_info success w =
     bind_r (lift (py_get backup_info ''startup_items'' JNull) w)
       (\<lambda>section w1.
          if truthy section
          then bind_r (restore_startup_items w1 section) (\<lambda>ok w2. ret (success \<and> ok) w2)
          else ret success w1)"

definition restore_operation :: "world \<Rightarrow> string \<Rightarrow> bool result" where
  "restore_operation w backup_id =
     catch
       (bind_r (get_backup_info w backup_id)
          (\<lambda>backup_info w0.
             if \<not> truthy backup_info then ret False w0
             else
               bind_r (lift (py_get backup_info ''operation'' (JStr ''Unknown'')) w0) (\<lambda>operation_name w1.
               bind_r (restore_registry_section backup_info True w1) (\<lambda>s1 w2.
               bind_r (restore_file_section backup_info s1 w2) (\<lambda>s2 w3.
               bind_r (restore_service_section backup_info s2 w3) (\<lambda>s3 w4.
               bind_r (restore_power_section backup_info s3 w4) (\<lambda>s4 w5.
               restore_startup_section backup_info s4 w5)))))))
       False"



section \<open>Notions used in the statements\<close>

text \<open>
  The ledger document a \<open>backup_id\<close> resolves to: the JSON value held by its info file,
  if the file exists and can be read and parsed.
\<close>

definition ledger_document :: "world \<Rightarrow> string \<Rightarrow> json option" where
  "ledger_document w backup_id =
     (if path_exists w (info_file backup_id)
      then (case read_json w (info_file backup_id) of Inl e \<Rightarrow> None | Inr j \<Rightarrow> Some j)
      else None)"

text \<open>A file system given by paths.\<close>

definition files :: "(path \<times> node) list \<Rightarrow> (fskey \<times> node) list" where
  "files xs = map (\<lambda>pn. (fs_key (fst pn), snd pn)) xs"

text \<open>A world in which nothing fails and nothing has been captured yet.\<close>

definition quiet_world :: world where
  "quiet_world =
     \<lparr>fs = files [(backup_root, Dir)],
      registry = (\<lambda>k. None),
      services = (\<lambda>n. None),
      service_config = (\<lambda>n. []),
      power_plans = [],
      active_plan = [],
      now_stamp = ''20240101_000000'',
      now_iso = ''2024-01-01T00:00:00'',
      now_epoch = 1704067200,
      fault = (\<lambda>c. False)\<rparr>"

text \<open>The same world with a disk that refuses to open the ledger document of \<open>demo\<close>.\<close>

definition readonly_world :: world where
  "readonly_world =
     quiet_world\<lparr>fault := (\<lambda>c. c = OpenWrite (fs_key (info_file ''demo_20240101_000000'')))\<rparr>"


text \<open>
  A system with one auto-run entry; the same system after \<open>create_operation_backup\<close>
  and \<open>backup_startup_items\<close>; and then after the entry has been removed.
\<close>

definition startup_world :: world where
  "startup_world =
     quiet_world\<lparr>registry :=
       (\<lambda>k. if k = (''HKCU'', RUN_KEY) then Some [(''app'', JStr ''app.exe'')] else None)\<rparr>"

definition startup_captured :: world where
  "startup_captured =
     snd (backup_startup_items (snd (create_operation_backup startup_world ''startup''))
            ''startup_20240101_000000'')"

definition startup_disabled :: world where
  "startup_disabled =
     startup_captured\<lparr>registry := (\<lambda>k. if k = (''HKCU'', RUN_KEY) then Some [] else None)\<rparr>"

text \<open>
  A system with a file last modified forty days ago, and the same system after the
  file has been captured under a fresh backup.
\<close>

definition aged_world :: world where
  "aged_world =
     quiet_world\<lparr>fs := files [(backup_root, Dir), (file_backups, Dir),
                               (''C:/data.txt'', File (Raw ''data'') (1704067200 - 40 * 86400))]\<rparr>"

definition aged_captured :: world where
  "aged_captured =
     snd (backup_file (snd (create_operation_backup aged_world ''clean''))
            ''clean_20240101_000000'' ''C:/data.txt'' ''old file'')"

definition aged_blob :: path where
  "aged_blob = str_path (join file_backups ''clean_20240101_000000_C__data.txt'')"


text \<open>A backup store with one ledger document a year old and one a day old.\<close>

definition stale_world :: world where
  "stale_world =
     quiet_world\<lparr>fs := files
       [(backup_root, Dir),
        (info_file ''old_20230101_000000'',
           File (JsonText (new_backup_info ''old'' ''20230101_000000'')) 1672531200),
        (info_file ''new_20231231_000000'',
           File (JsonText (new_backup_info ''new'' ''20231231_000000'')) 1703980800)]\<rparr>"


text \<open>
  A sequence of \<open>_update_backup_info\<close> calls on one backup: each call names a section,
  the data and an optional key. A call \<open>touches\<close> the entry under key \<open>k\<close> of a section
  when it writes to that section with the same key, or with no key at all.
\<close>

type_synonym update_call = "string \<times> json \<times> string option"

definition run_updates :: "world \<Rightarrow> string \<Rightarrow> update_call list \<Rightarrow> world" where
  "run_updates w backup_id calls =
     fold (\<lambda>c w'. snd (update_backup_info w' backup_id (fst c) (fst (snd c)) (snd (snd c)))) calls w"

definition keyed :: "string option \<Rightarrow> bool" where
  "keyed key = (case key of None \<Rightarrow> False | Some k \<Rightarrow> k \<noteq> [])"

definition touches :: "update_call \<Rightarrow> string \<Rightarrow> string \<Rightarrow> bool" where
  "touches c section k = (fst c = section \<and> (\<not> keyed (snd (snd c)) \<or> snd (snd c) = Some k))"

definition lists_kept :: "(string \<times> json) list \<Rightarrow> (string \<times> json) list \<Rightarrow> bool" where
  "lists_kept d d' = (\<forall>s xs. map_of d s = Some (JList xs) \<longrightarrow> (\<exists>ys. map_of d' s = Some (JList (xs @ ys))))"

definition keys_kept :: "update_call list \<Rightarrow> (string \<times> json) list \<Rightarrow> (string \<times> json) list \<Rightarrow> bool" where
  "keys_kept calls d d' =
     (\<forall>s e k v. map_of d s = Some (JDict e) \<longrightarrow> map_of e k = Some v
            \<longrightarrow> (\<forall>c\<in>set calls. \<not> touches c s k)
            \<longrightarrow> (\<exists>e'. map_of d' s = Some (JDict e') \<and> map_of e' k = Some v))"

definition others_kept :: "update_call list \<Rightarrow> (string \<times> json) list \<Rightarrow> (string \<times> json) list \<Rightarrow> bool" where
  "others_kept calls d d' = (\<forall>s. (\<forall>c\<in>set calls. fst c \<noteq> s) \<longrightarrow> map_of d' s = map_of d s)"

definition entries_kept :: "update_call list \<Rightarrow> (string \<times> json) list \<Rightarrow> (string \<times> json) list \<Rightarrow> bool" where
  "entries_kept calls d d' = (lists_kept d d' \<and> keys_kept calls d d' \<and> others_kept calls d d')"

definition ledger_doc :: "(string \<times> json) list" where
  "ledger_doc = [(''registry_backups'', JList [JStr ''e1'']),
                 (''service_states'', JDict [(''svcA'', JStr ''RUNNING'')])]"

definition ledger_world :: world where
  "ledger_world = quiet_world\<lparr>fs := files [(backup_root, Dir),
      (info_file ''w_1'', File (JsonText (JDict ledger_doc)) 1704067200)]\<rparr>"

definition ledger_calls :: "update_call list" where
  "ledger_calls = [(''registry_backups'', JStr ''e2'', None),
                   (''service_states'', JStr ''STOPPED'', Some ''svcB'')]"

definition ledger_section :: "world \<Rightarrow> string \<Rightarrow> string \<Rightarrow> json option" where
  "ledger_section w backup_id section =
     (case ledger_document w backup_id of
        Some (JDict d) \<Rightarrow> map_of d section
      | _ \<Rightarrow> None)"

definition svc_world :: world where
  "svc_world = quiet_world\<lparr>services := (\<lambda>n. if n = ''spooler'' then Some RUNNING else None)\<rparr>"

definition svc_first :: world where
  "svc_first = snd (backup_service_state (snd (create_operation_backup svc_world ''svc''))
                      ''svc_20240101_000000'' ''spooler'')"

definition svc_second :: world where
  "svc_second =
     snd (backup_service_state
            (svc_first\<lparr>services := (\<lambda>n. if n = ''spooler'' then Some STOPPED else None)\<rparr>)
            ''svc_20240101_000000'' ''spooler'')"


text \<open>
  The system of \<open>aged_world\<close> after \<open>create_operation_backup\<close>, on which the ledger
  document of the backup can no longer be opened for writing.
\<close>

definition locked_world :: world where
  "locked_world =
     (snd (create_operation_backup aged_world ''clean''))
       \<lparr>fault := (\<lambda>c. c = OpenWrite (fs_key (info_file ''clean_20240101_000000'')))\<rparr>"



text \<open>
  The shape of every ledger document that the engine writes: a dict that is not
  empty; the registry and the file section, when present, are lists (the captures
  append to them); the service section, when present, is a dict; the startup section,
  when present, is a list of lists (\<open>backup_startup_items\<close> appends the whole list of
  items as one element).
\<close>

definition listed :: "(string \<times> json) list \<Rightarrow> string \<Rightarrow> bool" where
  "listed d s = (case map_of d s of None \<Rightarrow> True | Some (JList xs) \<Rightarrow> True | Some v \<Rightarrow> False)"

definition keyed_section :: "(string \<times> json) list \<Rightarrow> string \<Rightarrow> bool" where
  "keyed_section d s = (case map_of d s of None \<Rightarrow> True | Some (JDict e) \<Rightarrow> True | Some v \<Rightarrow> False)"

definition is_list :: "json \<Rightarrow> bool" where
  "is_list v = (case v of JList xs \<Rightarrow> True | _ \<Rightarrow> False)"

definition nested :: "(string \<times> json) list \<Rightarrow> string \<Rightarrow> bool" where
  "nested d s =
     (case map_of d s of None \<Rightarrow> True | Some (JList xs) \<Rightarrow> list_all is_list xs | Some v \<Rightarrow> False)"

definition engine_written :: "json \<Rightarrow> bool" where
  "engine_written doc =
     (case doc of
        JDict d \<Rightarrow>
          d \<noteq> [] \<and> listed d ''registry_backups'' \<and> listed d ''file_backups''
          \<and> keyed_section d ''service_states'' \<and> nested d ''startup_items''
      | _ \<Rightarrow> False)"

text \<open>
  The calls of \<open>_update_backup_info\<close> that the captures make: the section, the data and
  the key of each.
\<close>

definition capture_update :: "string \<Rightarrow> json \<Rightarrow> string option \<Rightarrow> bool" where
  "capture_update section data key =
     ((section = ''registry_backups'' \<and> key = None)
      \<or> (section = ''file_backups'' \<and> key = None)
      \<or> (section = ''service_states'' \<and> keyed key)
      \<or> (section = ''power_settings'' \<and> key = None)
      \<or> (section = ''startup_items'' \<and> key = None \<and> is_list data))"

text \<open>
  A section of a ledger document is empty when \<open>restore_operation\<close> skips it: the
  value stored under its name is missing or falsy. Otherwise its entries are what the
  loop iterates over.
\<close>

definition section_empty :: "json \<Rightarrow> string \<Rightarrow> bool" where
  "section_empty doc s = (case py_get doc s JNull of Inl e \<Rightarrow> True | Inr v \<Rightarrow> \<not> truthy v)"



text \<open>
  The claim about the overall result, in its own words: the recorded entries of a
  ledger document, section by section; every one of them is visited, in order, whatever
  the outcome of the one before; the overall result is success exactly when every
  outcome is.
\<close>

datatype entry =
    RegistryEntry json
  | FileEntry json
  | ServiceEntry string json
  | PowerEntry json
  | StartupEntry json


fun restore_entry :: "world \<Rightarrow> entry \<Rightarrow> bool result" where
  "restore_entry w (RegistryEntry e) = restore_registry_backup w e"
| "restore_entry w (FileEntry e) = restore_file_backup w e"
| "restore_entry w (ServiceEntry name data) = restore_service_state w name data"
| "restore_entry w (PowerEntry v) = restore_power_plan w v"
| "restore_entry w (StartupEntry item) = restore_startup_item w item"

definition succeeded :: "bool result \<Rightarrow> bool" where
  "succeeded r = (case fst r of Inl e \<Rightarrow> False | Inr ok \<Rightarrow> ok)"

fun visit_all :: "entry list \<Rightarrow> world \<Rightarrow> bool list \<times> world" where
  "visit_all [] w = ([], w)"
| "visit_all (e # es) w =
     (case visit_all es (snd (restore_entry w e)) of
        (outcomes, w') \<Rightarrow> (succeeded (restore_entry w e) # outcomes, w'))"





text \<open>
  For the proof: a loop \<open>runs\<close> a list of entries when it visits all of them and
  conjoins their outcomes with the flag it was given.
\<close>

definition runs :: "(bool \<Rightarrow> world \<Rightarrow> bool result) \<Rightarrow> entry list \<Rightarrow> bool" where
  "runs F es =
     (\<forall>b w. F b w = (Inr (b \<and> list_all id (fst (visit_all es w))), snd (visit_all es w)))"


section \<open>Basic facts\<close>

lemma get_backup_info_eq:
  "get_backup_info w b = (Inr (case ledger_document w b of None \<Rightarrow> JNull | Some j \<Rightarrow> j), w)"
  by (simp add: get_backup_info_def ledger_document_def catch_def lift_def ret_def
           split: sum.splits)


section \<open>Restore of an unknown backup (C2)\<close>

text \<open>
  C2. When \<open>backup_id\<close> does not resolve to a ledger document (no info file, or one that
  cannot be read or parsed), \<open>restore_operation\<close> returns \<open>False\<close>, raises nothing and
  leaves the world exactly as it was: no restore action is performed.
\<close>

theorem restore_operation_not_found:
  "ledger_document w backup_id = None \<Longrightarrow> restore_operation w backup_id = (Inr False, w)"
  by (simp add: restore_operation_def get_backup_info_eq bind_r_def catch_def ret_def)

theorem restore_operation_not_found_witness:
  "ledger_document quiet_world ''nope'' = None
   \<and> restore_operation quiet_world ''nope'' = (Inr False, quiet_world)"
proof -
  have h: "ledger_document quiet_world ''nope'' = None"
    by code_simp
  from h restore_operation_not_found [OF h] show ?thesis by simp
qed


section \<open>Service snapshots that are neither running nor stopped (C10)\<close>

text \<open>
  C10. A service snapshot as \<open>backup_service_state\<close> records it, whose run state is
  neither \<open>RUNNING\<close> nor \<open>STOPPED\<close> (so \<open>PAUSED\<close> or \<open>UNKNOWN\<close>), is restored by doing
  nothing: the world is unchanged, no service is started or stopped, and the result
  is success. \<open>PAUSED\<close> is handled exactly as \<open>UNKNOWN\<close>.
\<close>

theorem restore_service_state_paused_unknown:
  "st \<noteq> RUNNING \<Longrightarrow> st \<noteq> STOPPED \<Longrightarrow>
   restore_service_state w name (service_backup name st info) = (Inr True, w)"
  by (cases st)
     (simp_all add: restore_service_state_def service_backup_def bind_r_def lift_def ret_def
        catch_def)

theorem restore_service_state_paused_unknown_witness:
  "PAUSED \<noteq> RUNNING \<and> PAUSED \<noteq> STOPPED
   \<and> restore_service_state quiet_world ''spooler'' (service_backup ''spooler'' PAUSED [])
       = (Inr True, quiet_world)"
  using restore_service_state_paused_unknown [of PAUSED quiet_world "''spooler''" "[]"]
  by simp


section \<open>Exceptions at the public boundary (C9)\<close>

text \<open>
  C9. \<open>create_operation_backup\<close> has no handler: when the ledger document cannot be
  opened for writing, the \<open>OSError\<close> reaches the caller.
\<close>

theorem create_operation_backup_raises:
  "fst (create_operation_backup readonly_world ''demo'') = Inl OSError"
  by code_simp


text \<open>
  The other public operations wrap their whole body in \<^verbatim>\<open>try: ... except Exception\<close>, and
  the pruning loop catches what it raises: none of them raises, whatever the
  environment does.
\<close>

lemma catch_never_raises: "\<not> raises (catch m d)"
  by (cases m) (auto simp: catch_def raises_def split: sum.splits)

lemma guarded_operations_never_raise:
  "\<not> raises (backup_registry_key w b hkey subkey descr)"
  "\<not> raises (backup_file w b fp descr)"
  "\<not> raises (backup_directory w b dp descr)"
  "\<not> raises (backup_service_state w b name)"
  "\<not> raises (backup_power_plan w b)"
  "\<not> raises (backup_startup_items w b)"
  "\<not> raises (restore_operation w b)"
  unfolding backup_registry_key_def backup_file_def backup_directory_def
    backup_service_state_def backup_power_plan_def backup_startup_items_def
    restore_operation_def
  by (rule catch_never_raises)+

lemma cleanup_old_backups_never_raises: "\<not> raises (cleanup_old_backups w days)"
  by (simp add: cleanup_old_backups_def ret_def raises_def split: prod.splits)


section \<open>Capture of an absent registry key (C3)\<close>

text \<open>
  C3. Capturing a registry key that does not exist returns \<open>False\<close>: \<open>backup_key\<close> gives
  \<open>None\<close> when the export fails, and \<open>backup_registry_key\<close> turns that into failure.
\<close>

theorem backup_registry_key_absent:
  "registry quiet_world (''HKCU'', ''Software/Absent'') = None
   \<and> fst (backup_registry_key quiet_world ''demo_20240101_000000'' HKEY_CURRENT_USER
            ''Software/Absent'' ''flag'') = Inr False"
  by code_simp


section \<open>Capture and restore of startup items (C4)\<close>

text \<open>
  C4. \<open>backup_startup_items\<close> succeeds and stores the list of items as a single element
  of the startup section. After the auto-run entry has been removed, restoring the
  backup writes nothing back and returns \<open>False\<close>, although no call of the
  environment fails.
\<close>

theorem restore_startup_items_after_capture:
  "fst (create_operation_backup startup_world ''startup'') = Inr ''startup_20240101_000000''
   \<and> fst (backup_startup_items (snd (create_operation_backup startup_world ''startup''))
            ''startup_20240101_000000'') = Inr True
   \<and> (case ledger_document startup_captured ''startup_20240101_000000'' of
         Some d \<Rightarrow> py_get d ''startup_items'' JNull
       | None \<Rightarrow> Inl OSError)
       = Inr (JList [JList [startup_item HKEY_CURRENT_USER RUN_KEY (''app'', JStr ''app.exe'')]])
   \<and> fst (restore_operation startup_disabled ''startup_20240101_000000'') = Inr False
   \<and> registry (snd (restore_operation startup_disabled ''startup_20240101_000000''))
        (''HKCU'', RUN_KEY) = Some []"
  by code_simp


section \<open>Pruning by age (C5)\<close>

lemma node_at_del_key:
  "node_at (del_key k w) q = (if q = k \<and> k \<noteq> [] then None else node_at w q)"
  by (simp add: node_at_def del_key_def delete_conv')

lemma node_at_put_key:
  "node_at (put_key k n w) q = (if q = k \<and> k \<noteq> [] then Some n else node_at w q)"
  by (simp add: node_at_def put_key_def update_conv')

lemma lookup_put_node:
  "lookup (put_node p n w) q =
     (if fs_key q = fs_key p \<and> fs_key p \<noteq> [] then Some n else lookup w q)"
  by (simp add: lookup_def put_node_def node_at_put_key)

lemma fault_del_key: "fault (del_key k w) = fault w"
  by (simp add: del_key_def)

lemma file_at_nonempty: "file_at w k \<Longrightarrow> k \<noteq> []"
  by (auto simp: file_at_def node_at_def)

lemma node_at_Nil: "node_at w [] = Some Dir"
  by (simp add: node_at_def)

lemma file_at_del_key: "file_at (del_key k w) q = (q \<noteq> k \<and> file_at w q)"
  by (cases "k = []") (auto simp: file_at_def node_at_del_key node_at_Nil)

lemma mtime_at_del_key: "q \<noteq> k \<Longrightarrow> mtime_at (del_key k w) q = mtime_at w q"
  by (simp add: mtime_at_def node_at_del_key)

lemma cleanup_loop_node_at:
  "\<forall>k. \<not> fault w (StatFile k) \<and> \<not> fault w (Unlink k) \<Longrightarrow>
   node_at (snd (cleanup_loop c ks n w)) q =
     (if q \<in> set ks \<and> file_at w q \<and> mtime_at w q < c then None else node_at w q)"
proof (induction ks arbitrary: n w)
  case Nil
  then show ?case by simp
next
  case (Cons k ks)
  show ?case
  proof (cases "file_at w k \<and> mtime_at w k < c")
    case True
    have nf: "\<forall>r. \<not> fault (del_key k w) (StatFile r) \<and> \<not> fault (del_key k w) (Unlink r)"
      using Cons.prems by (simp add: fault_del_key)
    from True Cons.prems have
      "cleanup_loop c (k # ks) n w = cleanup_loop c ks (Suc n) (del_key k w)"
      by simp
    then show ?thesis
      using Cons.IH [OF nf, of "Suc n"] True file_at_nonempty [of w k]
      by (auto simp: node_at_del_key file_at_del_key mtime_at_del_key)
  next
    case False
    with Cons.prems have "cleanup_loop c (k # ks) n w = cleanup_loop c ks n w"
      by auto
    then show ?thesis
      using Cons.IH [OF Cons.prems, of n] False by auto
  qed
qed

lemma file_at_listed: "file_at w k \<Longrightarrow> k \<in> fst ` set (fs w)"
  by (auto simp: file_at_def node_at_def split: option.splits if_splits dest: map_of_SomeD
        intro: rev_image_eqI)

text \<open>
  C5, as the claim states it, fails. A file last modified forty days ago is captured
  under a backup created now: \<open>copy2\<close> keeps the modification time, so the blob is forty
  days old and the ledger document is new. Pruning with a limit of thirty days deletes
  the blob and keeps the ledger document that references it.
\<close>

theorem cleanup_deletes_referenced_blob:
  "path_exists aged_captured aged_blob
   \<and> (case ledger_document aged_captured ''clean_20240101_000000'' of
         Some d \<Rightarrow> py_get d ''file_backups'' JNull
       | None \<Rightarrow> Inl OSError)
       = Inr (JList [JDict [(''original_path'', JStr (str_path ''C:/data.txt'')),
                            (''backup_path'', JStr aged_blob),
                            (''description'', JStr ''old file'')]])
   \<and> fst (cleanup_old_backups aged_captured 30) = Inr 1
   \<and> \<not> path_exists (snd (cleanup_old_backups aged_captured 30)) aged_blob
   \<and> ledger_document (snd (cleanup_old_backups aged_captured 30)) ''clean_20240101_000000''
       = ledger_document aged_captured ''clean_20240101_000000''"
  by code_simp

text \<open>
  C5, amended. When no \<open>stat\<close> and no \<open>unlink\<close> fails, pruning deletes exactly the
  regular files below the backup root whose modification time is strictly older than
  the cutoff, ledger documents and blobs alike, and leaves every other path as it was.
  Whether a surviving ledger document references a deleted blob plays no part.
\<close>

theorem cleanup_old_backups_by_mtime:
  assumes "\<forall>p. \<not> fault w (StatFile p) \<and> \<not> fault w (Unlink p)"
  shows "lookup (snd (cleanup_old_backups w days)) p =
           (if is_dir w backup_root \<and> under backup_root p \<and> is_file w p
               \<and> mtime w p < now_epoch w - days * 24 * 3600
            then None else lookup w p)"
proof -
  have "fs_key p \<in> set (rglob w backup_root) \<and> file_at w (fs_key p)
        \<longleftrightarrow> is_dir w backup_root \<and> under backup_root p \<and> is_file w p"
    using file_at_listed [of w "fs_key p"] by (auto simp: rglob_def under_def is_file_def)
  then show ?thesis
    using cleanup_loop_node_at [OF assms, of "now_epoch w - days * 24 * 3600"
            "rglob w backup_root" 0 "fs_key p"]
    by (auto simp: cleanup_old_backups_def ret_def Let_def lookup_def mtime_def is_file_def
          split: prod.splits)
qed

theorem cleanup_old_backups_by_mtime_witness:
  "(\<forall>p. \<not> fault stale_world (StatFile p) \<and> \<not> fault stale_world (Unlink p))
   \<and> lookup (snd (cleanup_old_backups stale_world 30)) (info_file ''old_20230101_000000'') = None
   \<and> lookup (snd (cleanup_old_backups stale_world 30)) (info_file ''new_20231231_000000'')
       = lookup stale_world (info_file ''new_20231231_000000'')"
proof -
  have h: "\<forall>p. \<not> fault stale_world (StatFile p) \<and> \<not> fault stale_world (Unlink p)"
    by (simp add: stale_world_def quiet_world_def)
  have a: "is_dir stale_world backup_root
     \<and> under backup_root (info_file ''old_20230101_000000'')
     \<and> is_file stale_world (info_file ''old_20230101_000000'')
     \<and> mtime stale_world (info_file ''old_20230101_000000'')
         < now_epoch stale_world - 30 * 24 * 3600"
    by code_simp
  have b: "\<not> mtime stale_world (info_file ''new_20231231_000000'')
             < now_epoch stale_world - 30 * 24 * 3600"
    by code_simp
  show ?thesis
    using h a b
      cleanup_old_backups_by_mtime [OF h, of 30 "info_file ''old_20230101_000000''"]
      cleanup_old_backups_by_mtime [OF h, of 30 "info_file ''new_20231231_000000''"]
    by simp
qed


section \<open>Additivity of the ledger sections (C7)\<close>

lemma fault_put_node: "fault (put_node p n w) = fault w"
  by (simp add: put_node_def put_key_def)

lemma ledger_document_put:
  "\<not> fault w (OpenRead (fs_key (info_file b))) \<Longrightarrow> fs_key (info_file b) \<noteq> [] \<Longrightarrow>
   ledger_document (put_node (info_file b) (File (JsonText j) t) w) b = Some j"
  by (simp add: ledger_document_def path_exists_def read_json_def lookup_put_node fault_put_node)

lemma ledger_document_SomeD:
  assumes "ledger_document w b = Some j"
  shows "\<not> fault w (OpenRead (fs_key (info_file b)))
         \<and> (\<exists>t. lookup w (info_file b) = Some (File (JsonText j) t))"
proof -
  from assms have r: "read_json w (info_file b) = Inr j"
    by (simp add: ledger_document_def split: if_splits sum.splits)
  then have nf: "\<not> fault w (OpenRead (fs_key (info_file b)))"
    by (auto simp: read_json_def)
  with r show ?thesis
    by (cases "lookup w (info_file b)")
       (auto simp: read_json_def split: node.splits blob.splits)
qed

lemma entries_kept_refl: "entries_kept [] d d"
  by (simp add: entries_kept_def lists_kept_def keys_kept_def others_kept_def)

lemma entries_kept_skip: "entries_kept cs d d' \<Longrightarrow> entries_kept (c # cs) d d'"
  by (simp add: entries_kept_def lists_kept_def keys_kept_def others_kept_def)

lemma lists_kept_trans:
  assumes "lists_kept d d1" "lists_kept d1 d2"
  shows "lists_kept d d2"
  unfolding lists_kept_def
proof (intro allI impI)
  fix s xs assume "map_of d s = Some (JList xs)"
  with assms(1) obtain ys where "map_of d1 s = Some (JList (xs @ ys))"
    unfolding lists_kept_def by blast
  with assms(2) obtain zs where "map_of d2 s = Some (JList ((xs @ ys) @ zs))"
    unfolding lists_kept_def by blast
  then have "map_of d2 s = Some (JList (xs @ (ys @ zs)))" by simp
  then show "\<exists>ys. map_of d2 s = Some (JList (xs @ ys))" by (rule exI)
qed

lemma keys_kept_trans:
  assumes "keys_kept [c] d d1" "keys_kept cs d1 d2"
  shows "keys_kept (c # cs) d d2"
  unfolding keys_kept_def
proof (intro allI impI)
  fix s e k v
  assume a: "map_of d s = Some (JDict e)" "map_of e k = Some v"
            "\<forall>c\<in>set (c # cs). \<not> touches c s k"
  from a(3) have n1: "\<forall>x\<in>set [c]. \<not> touches x s k" and n2: "\<forall>x\<in>set cs. \<not> touches x s k"
    by simp_all
  from assms(1) a(1,2) n1 obtain e1 where e1: "map_of d1 s = Some (JDict e1)" "map_of e1 k = Some v"
    unfolding keys_kept_def by blast
  from assms(2) e1 n2 show "\<exists>e'. map_of d2 s = Some (JDict e') \<and> map_of e' k = Some v"
    unfolding keys_kept_def by blast
qed

lemma others_kept_trans:
  "others_kept [c] d d1 \<Longrightarrow> others_kept cs d1 d2 \<Longrightarrow> others_kept (c # cs) d d2"
  by (simp add: others_kept_def)

lemma entries_kept_trans:
  "entries_kept [c] d d1 \<Longrightarrow> entries_kept cs d1 d2 \<Longrightarrow> entries_kept (c # cs) d d2"
  unfolding entries_kept_def
  using lists_kept_trans keys_kept_trans others_kept_trans by blast

lemma update_section_kept:
  assumes "update_section (JDict d) s data key = Inr doc'"
  shows "\<exists>d'. doc' = JDict d' \<and> entries_kept [(s, data, key)] d d'"
proof (cases "keyed key")
  case True
  then obtain k where k: "key = Some k" "k \<noteq> []"
    by (auto simp: keyed_def split: option.splits)
  with assms show ?thesis
    by (auto simp: update_section_def upsert_keyed_def entries_kept_def lists_kept_def
          keys_kept_def others_kept_def touches_def keyed_def
          update_conv' Let_def split: if_splits option.splits json.splits)
next
  case False
  then have "update_section (JDict d) s data key = append_listed d s data"
    by (auto simp: update_section_def keyed_def split: option.splits)
  with assms False show ?thesis
    by (auto simp: append_listed_def entries_kept_def lists_kept_def
          keys_kept_def others_kept_def touches_def
          update_conv' Let_def split: if_splits option.splits json.splits)
qed

lemma update_section_not_dict:
  "update_section doc s data key = Inr doc' \<Longrightarrow> \<exists>d. doc = JDict d"
  by (cases doc) (simp_all add: update_section_def)

lemma update_backup_info_unfold:
  assumes l: "lookup w (info_file b) = Some (File (JsonText doc) t)"
      and r: "\<not> fault w (OpenRead (fs_key (info_file b)))"
  shows "update_backup_info w b s data key =
     (case update_section doc s data key of
        Inl e \<Rightarrow> (Inr (), w)
      | Inr doc' \<Rightarrow>
          (if fault w (OpenWrite (fs_key (info_file b))) then (Inr (), w)
           else if fault w (WriteData (fs_key (info_file b)))
           then (Inr (), put_node (info_file b) (File (Raw []) (now_epoch w)) w)
           else (Inr (), put_node (info_file b) (File (JsonText doc') (now_epoch w)) w)))"
proof -
  have rd: "path_exists w (info_file b)" "read_json w (info_file b) = Inr doc"
    using r l by (simp_all add: path_exists_def read_json_def)
  have nd: "\<not> is_dir w (info_file b)"
    using l by (simp add: is_dir_def)
  show ?thesis
    unfolding update_backup_info_def
    by (simp add: rd nd bind_r_def catch_def lift_def ret_def write_json_def split: sum.splits)
qed

lemma update_backup_info_step:
  assumes "ledger_document w b = Some doc" "\<not> fault w (WriteData (fs_key (info_file b)))"
  shows "fault (snd (update_backup_info w b s data key)) = fault w
         \<and> (ledger_document (snd (update_backup_info w b s data key)) b = Some doc
            \<or> (\<exists>doc'. update_section doc s data key = Inr doc'
                 \<and> ledger_document (snd (update_backup_info w b s data key)) b = Some doc'))"
proof -
  from ledger_document_SomeD [OF assms(1)] obtain t where
    r: "\<not> fault w (OpenRead (fs_key (info_file b)))"
    and l: "lookup w (info_file b) = Some (File (JsonText doc) t)"
    by blast
  from l have ne: "fs_key (info_file b) \<noteq> []"
    by (auto simp: lookup_def node_at_def)
  show ?thesis
  proof (cases "update_section doc s data key")
    case (Inl e)
    then show ?thesis
      using assms(1) by (simp add: update_backup_info_unfold [OF l r])
  next
    case (Inr doc')
    then show ?thesis
      using assms r ne
      by (simp add: update_backup_info_unfold [OF l r] ledger_document_put fault_put_node)
  qed
qed

text \<open>
  C7, as the claim states it, fails. The state of a service is captured while it runs
  and, under the same backup, once more after it has been stopped: the second capture
  replaces the entry of the first.
\<close>

theorem update_backup_info_replaces_entry:
  "ledger_section svc_first ''svc_20240101_000000'' ''service_states''
     = Some (JDict [(''spooler'', service_backup ''spooler'' RUNNING [(''STATUS'', JStr ''RUNNING'')])])
   \<and> ledger_section svc_second ''svc_20240101_000000'' ''service_states''
     = Some (JDict [(''spooler'', service_backup ''spooler'' STOPPED [(''STATUS'', JStr ''STOPPED'')])])"
  by code_simp

text \<open>
  C7, amended. Let the ledger document be a dict, and let the write never fail after
  the file has been truncated. After any sequence of \<open>_update_backup_info\<close> calls the
  document is still a dict, and
  \<^item> a section that held a list holds the same list, extended at its end;
  \<^item> an entry stored under a key of a dict section is still there, unless a call wrote
    to that section with the same key or with no key;
  \<^item> a section that no call names is unchanged.
  A call with the key of an existing entry replaces that entry, and a call without a
  key replaces the value of a section that is not a list.
\<close>

theorem update_backup_info_keeps_entries:
  assumes "ledger_document w b = Some (JDict d)"
      and "\<not> fault w (WriteData (fs_key (info_file b)))"
  shows "\<exists>d'. ledger_document (run_updates w b calls) b = Some (JDict d')
              \<and> entries_kept calls d d'"
  using assms
proof (induction calls arbitrary: w d)
  case Nil
  then show ?case by (simp add: run_updates_def entries_kept_refl)
next
  case (Cons c cs)
  define w1 where "w1 = snd (update_backup_info w b (fst c) (fst (snd c)) (snd (snd c)))"
  have ru: "run_updates w b (c # cs) = run_updates w1 b cs"
    by (simp add: run_updates_def w1_def)
  from update_backup_info_step [OF Cons.prems, of "fst c" "fst (snd c)" "snd (snd c)"]
  have f: "fault w1 = fault w"
    and alt: "ledger_document w1 b = Some (JDict d)
              \<or> (\<exists>doc'. update_section (JDict d) (fst c) (fst (snd c)) (snd (snd c)) = Inr doc'
                    \<and> ledger_document w1 b = Some doc')"
    unfolding w1_def by simp_all
  have nf: "\<not> fault w1 (WriteData (fs_key (info_file b)))"
    using f Cons.prems(2) by simp
  from alt show ?case
  proof
    assume same: "ledger_document w1 b = Some (JDict d)"
    from Cons.IH [OF same nf] obtain d' where
      "ledger_document (run_updates w1 b cs) b = Some (JDict d')" "entries_kept cs d d'"
      by blast
    then show ?thesis using ru entries_kept_skip by auto
  next
    assume "\<exists>doc'. update_section (JDict d) (fst c) (fst (snd c)) (snd (snd c)) = Inr doc'
                    \<and> ledger_document w1 b = Some doc'"
    then obtain doc' where u: "update_section (JDict d) (fst c) (fst (snd c)) (snd (snd c)) = Inr doc'"
      and l: "ledger_document w1 b = Some doc'" by blast
    from update_section_kept [OF u] obtain d1 where
      d1: "doc' = JDict d1" "entries_kept [c] d d1" by auto
    from Cons.IH [of w1 d1] l d1(1) nf obtain d' where
      d': "ledger_document (run_updates w1 b cs) b = Some (JDict d')" "entries_kept cs d1 d'"
      by blast
    from entries_kept_trans [OF d1(2) d'(2)] d'(1) ru show ?thesis by auto
  qed
qed

theorem update_backup_info_keeps_entries_witness:
  "ledger_document ledger_world ''w_1'' = Some (JDict ledger_doc)
   \<and> \<not> fault ledger_world (WriteData (fs_key (info_file ''w_1'')))
   \<and> (\<exists>d'. ledger_document (run_updates ledger_world ''w_1'' ledger_calls) ''w_1'' = Some (JDict d')
          \<and> (\<exists>ys. map_of d' ''registry_backups'' = Some (JList (JStr ''e1'' # ys)))
          \<and> (\<exists>e'. map_of d' ''service_states'' = Some (JDict e')
                 \<and> map_of e' ''svcA'' = Some (JStr ''RUNNING'')))"
proof -
  have h1: "ledger_document ledger_world ''w_1'' = Some (JDict ledger_doc)"
    by code_simp
  have h2: "\<not> fault ledger_world (WriteData (fs_key (info_file ''w_1'')))"
    by (simp add: ledger_world_def quiet_world_def)
  from update_backup_info_keeps_entries [OF h1 h2, of ledger_calls] obtain d' where
    l: "ledger_document (run_updates ledger_world ''w_1'' ledger_calls) ''w_1'' = Some (JDict d')"
    and k: "entries_kept ledger_calls ledger_doc d'" by blast
  have a: "map_of ledger_doc ''registry_backups'' = Some (JList [JStr ''e1''])"
    by (simp add: ledger_doc_def)
  have b: "map_of ledger_doc ''service_states'' = Some (JDict [(''svcA'', JStr ''RUNNING'')])"
    by (simp add: ledger_doc_def)
  have c: "\<forall>c\<in>set ledger_calls. \<not> touches c ''service_states'' ''svcA''"
    by (simp add: ledger_calls_def touches_def keyed_def)
  from k a have "\<exists>ys. map_of d' ''registry_backups'' = Some (JList ([JStr ''e1''] @ ys))"
    unfolding entries_kept_def lists_kept_def by blast
  moreover from k b c have "\<exists>e'. map_of d' ''service_states'' = Some (JDict e')
                 \<and> map_of e' ''svcA'' = Some (JStr ''RUNNING'')"
    unfolding entries_kept_def keys_kept_def by fastforce
  ultimately show ?thesis using h1 h2 l by auto
qed


section \<open>Captures when the ledger cannot be written (C6)\<close>

lemma update_backup_info_locked:
  assumes "fault w (OpenWrite (fs_key (info_file b)))"
  shows "update_backup_info w b s data key = (Inr (), w)"
proof (cases "path_exists w (info_file b)")
  case True
  show ?thesis
  proof (cases "read_json w (info_file b)")
    case (Inl e)
    with True show ?thesis
      by (simp add: update_backup_info_def bind_r_def catch_def lift_def)
  next
    case (Inr doc)
    with True assms show ?thesis
      by (cases "update_section doc s data key")
         (simp_all add: update_backup_info_def bind_r_def catch_def lift_def write_json_def)
  qed
next
  case False
  with assms show ?thesis
    by (cases "update_section (JDict []) s data key")
       (simp_all add: update_backup_info_def bind_r_def catch_def lift_def ret_def write_json_def)
qed

lemma copy2_ok:
  assumes "fst (copy2 w src dst) = Inr u"
  shows "\<exists>p n. \<not> fault w (OpenWrite (fs_key p)) \<and> copy2 w src dst = (Inr (), put_node p n w)"
  using assms
  by (auto simp: copy2_def Let_def split: option.splits node.splits if_splits)

lemma zip_create_ok:
  assumes "fst (zip_create w p src) = Inr u"
  shows "\<exists>n. \<not> fault w (OpenWrite (fs_key p)) \<and> zip_create w p src = (Inr (), put_node p n w)"
  using assms by (auto simp: zip_create_def split: if_splits)

lemma render_nonempty: "\<forall>x\<in>set xs. x \<noteq> [] \<Longrightarrow> render xs \<noteq> []"
  by (induction xs rule: render.induct) auto

lemma str_path_nonempty: "str_path p \<noteq> []"
  by (rule render_nonempty [of "parts p", folded str_path_def]) (simp add: parts_def)

lemma backup_key_cases:
  "backup_key w h k = (Inr None, w)
   \<or> (\<exists>p n. \<not> fault w (OpenWrite (fs_key p)) \<and> p \<noteq> []
          \<and> backup_key w h k = (Inr (Some p), put_node p n w))"
  by (cases k)
     (auto simp: backup_key_def catch_def lift_def ret_def reg_export_def Let_def str_path_nonempty
        split: option.splits)

lemma locked_put:
  "fault w (OpenWrite (fs_key q)) \<Longrightarrow> \<not> fault w (OpenWrite (fs_key p)) \<Longrightarrow>
   fault (put_node p n w) (OpenWrite (fs_key q)) \<and> lookup (put_node p n w) q = lookup w q"
  by (auto simp: fault_put_node lookup_put_node)

lemma backup_file_locked:
  assumes lk: "fault w (OpenWrite (fs_key (info_file b)))"
      and ex: "path_exists w fp"
      and cp: "fst (copy2 w fp (join file_backups (b @ ''_'' @ safe_name (str_path fp)))) = Inr ()"
  shows "fst (backup_file w b fp descr) = Inr True
         \<and> lookup (snd (backup_file w b fp descr)) (info_file b) = lookup w (info_file b)"
proof -
  from copy2_ok [OF cp] obtain p n where
    p: "\<not> fault w (OpenWrite (fs_key p))"
       "copy2 w fp (join file_backups (b @ ''_'' @ safe_name (str_path fp))) = (Inr (), put_node p n w)"
    by blast
  from locked_put [OF lk p(1), of n] have
    l: "fault (put_node p n w) (OpenWrite (fs_key (info_file b)))"
       "lookup (put_node p n w) (info_file b) = lookup w (info_file b)" by simp_all
  have "backup_file w b fp descr = (Inr True, put_node p n w)"
    using ex p(2) update_backup_info_locked [OF l(1)]
    by (simp add: backup_file_def Let_def bind_r_def catch_def ret_def)
  then show ?thesis using l(2) by simp
qed

lemma backup_directory_locked:
  assumes lk: "fault w (OpenWrite (fs_key (info_file b)))"
      and ex: "path_exists w dp"
      and zp: "fst (zip_create w (join file_backups (b @ ''_'' @ safe_name (str_path dp) @ ''.zip'')) dp) = Inr ()"
  shows "fst (backup_directory w b dp descr) = Inr True
         \<and> lookup (snd (backup_directory w b dp descr)) (info_file b) = lookup w (info_file b)"
proof -
  from zip_create_ok [OF zp] obtain n where
    p: "\<not> fault w (OpenWrite (fs_key (join file_backups (b @ ''_'' @ safe_name (str_path dp) @ ''.zip''))))"
       "zip_create w (join file_backups (b @ ''_'' @ safe_name (str_path dp) @ ''.zip'')) dp
        = (Inr (), put_node (join file_backups (b @ ''_'' @ safe_name (str_path dp) @ ''.zip'')) n w)"
    by blast
  from locked_put [OF lk p(1), of n] have
    l: "fault (put_node (join file_backups (b @ ''_'' @ safe_name (str_path dp) @ ''.zip'')) n w)
          (OpenWrite (fs_key (info_file b)))"
       "lookup (put_node (join file_backups (b @ ''_'' @ safe_name (str_path dp) @ ''.zip'')) n w) (info_file b)
        = lookup w (info_file b)" by simp_all
  have "backup_directory w b dp descr
        = (Inr True, put_node (join file_backups (b @ ''_'' @ safe_name (str_path dp) @ ''.zip'')) n w)"
    using ex p(2) update_backup_info_locked [OF l(1)]
    by (simp add: backup_directory_def Let_def bind_r_def catch_def ret_def)
  then show ?thesis using l(2) by simp
qed

lemma backup_registry_key_locked:
  assumes lk: "fault w (OpenWrite (fs_key (info_file b)))"
      and bk: "fst (backup_key w hkey (JStr subkey)) = Inr (Some bp)"
  shows "fst (backup_registry_key w b hkey subkey descr) = Inr True
         \<and> lookup (snd (backup_registry_key w b hkey subkey descr)) (info_file b)
             = lookup w (info_file b)"
proof -
  from backup_key_cases [of w hkey "JStr subkey"] bk obtain p n where
    p: "\<not> fault w (OpenWrite (fs_key p))" "p \<noteq> []"
       "backup_key w hkey (JStr subkey) = (Inr (Some p), put_node p n w)"
    by auto
  from locked_put [OF lk p(1), of n] have
    l: "fault (put_node p n w) (OpenWrite (fs_key (info_file b)))"
       "lookup (put_node p n w) (info_file b) = lookup w (info_file b)" by simp_all
  have "backup_registry_key w b hkey subkey descr = (Inr True, put_node p n w)"
    using p(2,3) update_backup_info_locked [OF l(1)]
    by (simp add: backup_registry_key_def bind_r_def catch_def ret_def)
  then show ?thesis using l(2) by simp
qed

lemma backup_service_state_locked:
  assumes lk: "fault w (OpenWrite (fs_key (info_file b)))"
  shows "backup_service_state w b name = (Inr True, w)"
  using update_backup_info_locked [OF lk]
  by (simp add: backup_service_state_def Let_def bind_r_def catch_def ret_def)

lemma backup_power_plan_locked:
  assumes lk: "fault w (OpenWrite (fs_key (info_file b)))" and q: "fst (query_active_plan w)"
  shows "backup_power_plan w b = (Inr True, w)"
  using update_backup_info_locked [OF lk] q
  by (cases "query_active_plan w")
     (simp add: backup_power_plan_def bind_r_def catch_def ret_def)

lemma backup_startup_items_locked:
  assumes lk: "fault w (OpenWrite (fs_key (info_file b)))"
  shows "backup_startup_items w b = (Inr True, w)"
  using update_backup_info_locked [OF lk]
  by (simp add: backup_startup_items_def bind_r_def catch_def ret_def)

text \<open>
  C6, as the claim states it, fails. The file is copied into the backup store, the
  ledger document cannot be opened for writing, no entry is recorded, and
  \<open>backup_file\<close> returns \<open>True\<close>.
\<close>

theorem backup_file_ledger_locked:
  "fault locked_world (OpenWrite (fs_key (info_file ''clean_20240101_000000'')))
   \<and> fst (backup_file locked_world ''clean_20240101_000000'' ''C:/data.txt'' ''old file'') = Inr True
   \<and> lookup (snd (backup_file locked_world ''clean_20240101_000000'' ''C:/data.txt'' ''old file''))
        aged_blob = Some (File (Raw ''data'') (1704067200 - 40 * 86400))
   \<and> ledger_section (snd (backup_file locked_world ''clean_20240101_000000'' ''C:/data.txt''
        ''old file'')) ''clean_20240101_000000'' ''file_backups'' = Some (JList [])"
  by code_simp

text \<open>
  C6, amended. When the ledger document of the backup cannot be opened for writing,
  every capture whose snapshot is taken returns \<open>True\<close>, not failure:
  \<open>_update_backup_info\<close> logs the error and returns nothing. The ledger document is
  left exactly as it was, so the entries written before remain intact.
\<close>

theorem capture_succeeds_without_ledger:
  assumes "fault w (OpenWrite (fs_key (info_file b)))"
  shows "(path_exists w fp
            \<and> fst (copy2 w fp (join file_backups (b @ ''_'' @ safe_name (str_path fp)))) = Inr ()
          \<longrightarrow> fst (backup_file w b fp descr) = Inr True
              \<and> lookup (snd (backup_file w b fp descr)) (info_file b) = lookup w (info_file b))
       \<and> (path_exists w dp
            \<and> fst (zip_create w (join file_backups (b @ ''_'' @ safe_name (str_path dp) @ ''.zip'')) dp) = Inr ()
          \<longrightarrow> fst (backup_directory w b dp descr) = Inr True
              \<and> lookup (snd (backup_directory w b dp descr)) (info_file b) = lookup w (info_file b))
       \<and> (fst (backup_key w hkey (JStr subkey)) = Inr (Some bp)
          \<longrightarrow> fst (backup_registry_key w b hkey subkey descr) = Inr True
              \<and> lookup (snd (backup_registry_key w b hkey subkey descr)) (info_file b)
                  = lookup w (info_file b))
       \<and> backup_service_state w b name = (Inr True, w)
       \<and> (fst (query_active_plan w) \<longrightarrow> backup_power_plan w b = (Inr True, w))
       \<and> backup_startup_items w b = (Inr True, w)"
  using backup_file_locked [OF assms] backup_directory_locked [OF assms]
    backup_registry_key_locked [OF assms] backup_service_state_locked [OF assms]
    backup_power_plan_locked [OF assms] backup_startup_items_locked [OF assms]
  by blast

theorem capture_succeeds_without_ledger_witness:
  "fault locked_world (OpenWrite (fs_key (info_file ''clean_20240101_000000'')))
   \<and> path_exists locked_world ''C:/data.txt''
   \<and> fst (copy2 locked_world ''C:/data.txt''
            (join file_backups (''clean_20240101_000000'' @ ''_'' @ safe_name (str_path ''C:/data.txt'')))) = Inr ()
   \<and> fst (backup_file locked_world ''clean_20240101_000000'' ''C:/data.txt'' ''old file'') = Inr True
   \<and> lookup (snd (backup_file locked_world ''clean_20240101_000000'' ''C:/data.txt'' ''old file''))
        (info_file ''clean_20240101_000000'')
       = lookup locked_world (info_file ''clean_20240101_000000'')
   \<and> backup_service_state locked_world ''clean_20240101_000000'' ''spooler'' = (Inr True, locked_world)"
proof -
  have h: "fault locked_world (OpenWrite (fs_key (info_file ''clean_20240101_000000'')))"
    by code_simp
  have ex: "path_exists locked_world ''C:/data.txt''"
    by code_simp
  have cp: "fst (copy2 locked_world ''C:/data.txt''
            (join file_backups (''clean_20240101_000000'' @ ''_'' @ safe_name (str_path ''C:/data.txt'')))) = Inr ()"
    by code_simp
  show ?thesis
    using h ex cp
      capture_succeeds_without_ledger [OF h, where fp = "''C:/data.txt''" and descr = "''old file''"
        and name = "''spooler''"]
    by blast
qed



section \<open>Every entry is visited and the result is their conjunction (C1)\<close>







lemma runs_ret: "runs (\<lambda>b w. ret b w) []"
  by (simp add: runs_def ret_def)















lemma new_backup_info_engine_written: "engine_written (new_backup_info operation_name timestamp)"
  by (simp add: engine_written_def new_backup_info_def listed_def keyed_section_def nested_def)

lemma update_nonempty: "AList.update k v al \<noteq> []"
  by (cases al) auto

lemma append_listed_map:
  "\<exists>d'. append_listed d s data = Inr (JDict d') \<and> d' \<noteq> []
        \<and> (\<forall>t. t \<noteq> s \<longrightarrow> map_of d' t = map_of d t)
        \<and> map_of d' s = Some (case map_of d s of
                               None \<Rightarrow> JList [data]
                             | Some (JList xs) \<Rightarrow> JList (xs @ [data])
                             | Some v \<Rightarrow> data)"
proof (cases "map_of d s")
  case None
  then show ?thesis
    by (simp add: append_listed_def update_conv' update_nonempty)
next
  case (Some v)
  then show ?thesis
    by (cases v) (simp_all add: append_listed_def update_conv' update_nonempty)
qed

lemma upsert_keyed_map:
  assumes "upsert_keyed d s k data = Inr doc'"
  shows "\<exists>d' e. doc' = JDict d' \<and> d' \<noteq> []
        \<and> (\<forall>t. t \<noteq> s \<longrightarrow> map_of d' t = map_of d t)
        \<and> map_of d' s = Some (JDict e)"
proof (cases "map_of d s")
  case None
  with assms show ?thesis
    by (auto simp: upsert_keyed_def update_conv' update_nonempty)
next
  case (Some v)
  with assms show ?thesis
    by (cases v) (auto simp: upsert_keyed_def update_conv' update_nonempty)
qed

lemma update_section_engine_written:
  assumes "engine_written doc \<or> doc = JDict []"
      and "capture_update s data key"
      and "update_section doc s data key = Inr doc'"
  shows "engine_written doc'"
proof -
  from assms(1) obtain d where d: "doc = JDict d"
    and sh: "listed d ''registry_backups''" "listed d ''file_backups''"
            "keyed_section d ''service_states''" "nested d ''startup_items''"
    by (cases doc) (auto simp: engine_written_def listed_def keyed_section_def nested_def)
  show ?thesis
  proof (cases "keyed key")
    case True
    then obtain k where k: "key = Some k" "k \<noteq> []"
      by (auto simp: keyed_def split: option.splits)
    with assms(2) have s: "s = ''service_states''"
      by (auto simp: capture_update_def)
    from assms(3) d k have "upsert_keyed d s k data = Inr doc'"
      by (simp add: update_section_def)
    from upsert_keyed_map [OF this] obtain d' e where
      m: "doc' = JDict d'" "d' \<noteq> []" "\<forall>t. t \<noteq> s \<longrightarrow> map_of d' t = map_of d t"
         "map_of d' s = Some (JDict e)" by blast
    from m(3) s have o: "map_of d' ''registry_backups'' = map_of d ''registry_backups''"
      "map_of d' ''file_backups'' = map_of d ''file_backups''"
      "map_of d' ''startup_items'' = map_of d ''startup_items''" by simp_all
    from sh o m(1,2,4) s show ?thesis
      by (simp add: engine_written_def listed_def keyed_section_def nested_def)
  next
    case False
    with assms(2) have key: "key = None"
      and s: "s = ''registry_backups'' \<or> s = ''file_backups'' \<or> s = ''power_settings''
              \<or> (s = ''startup_items'' \<and> is_list data)"
      by (auto simp: capture_update_def)
    from assms(3) d key have u: "append_listed d s data = Inr doc'"
      by (simp add: update_section_def)
    from append_listed_map [of d s data] u obtain d' where
      m: "doc' = JDict d'" "d' \<noteq> []" "\<forall>t. t \<noteq> s \<longrightarrow> map_of d' t = map_of d t"
         "map_of d' s = Some (case map_of d s of
                               None \<Rightarrow> JList [data]
                             | Some (JList xs) \<Rightarrow> JList (xs @ [data])
                             | Some v \<Rightarrow> data)" by auto
    from s show ?thesis
    proof (elim disjE conjE)
      assume a: "s = ''registry_backups''"
      with m(3) have o: "map_of d' ''file_backups'' = map_of d ''file_backups''"
        "map_of d' ''service_states'' = map_of d ''service_states''"
        "map_of d' ''startup_items'' = map_of d ''startup_items''" by simp_all
      from sh(1) m(4) a have "listed d' ''registry_backups''"
        by (auto simp: listed_def split: option.splits json.splits)
      with sh o m(1,2) show ?thesis
        by (simp add: engine_written_def listed_def keyed_section_def nested_def)
    next
      assume a: "s = ''file_backups''"
      with m(3) have o: "map_of d' ''registry_backups'' = map_of d ''registry_backups''"
        "map_of d' ''service_states'' = map_of d ''service_states''"
        "map_of d' ''startup_items'' = map_of d ''startup_items''" by simp_all
      from sh(2) m(4) a have "listed d' ''file_backups''"
        by (auto simp: listed_def split: option.splits json.splits)
      with sh o m(1,2) show ?thesis
        by (simp add: engine_written_def listed_def keyed_section_def nested_def)
    next
      assume a: "s = ''power_settings''"
      with m(3) have o: "map_of d' ''registry_backups'' = map_of d ''registry_backups''"
        "map_of d' ''file_backups'' = map_of d ''file_backups''"
        "map_of d' ''service_states'' = map_of d ''service_states''"
        "map_of d' ''startup_items'' = map_of d ''startup_items''" by simp_all
      with sh m(1,2) show ?thesis
        by (simp add: engine_written_def listed_def keyed_section_def nested_def)
    next
      assume a: "s = ''startup_items''" and l: "is_list data"
      with m(3) have o: "map_of d' ''registry_backups'' = map_of d ''registry_backups''"
        "map_of d' ''file_backups'' = map_of d ''file_backups''"
        "map_of d' ''service_states'' = map_of d ''service_states''" by simp_all
      from sh(4) m(4) a l have "nested d' ''startup_items''"
        by (auto simp: nested_def split: option.splits json.splits)
      with sh o m(1,2) show ?thesis
        by (simp add: engine_written_def listed_def keyed_section_def nested_def)
    qed
  qed
qed



lemma ledger_document_put_raw:
  "ledger_document (put_node (info_file b) (File (Raw x) t) w) b = Some j \<Longrightarrow> fs_key (info_file b) = []"
  by (auto simp: ledger_document_def path_exists_def read_json_def lookup_put_node fault_put_node
        split: if_splits)

lemma ledger_document_root: "fs_key (info_file b) = [] \<Longrightarrow> ledger_document w b = None"
  by (simp add: ledger_document_def read_json_def lookup_def node_at_def path_exists_def)

lemma ledger_document_put_text:
  assumes "ledger_document (put_node (info_file b) (File (JsonText j) t) w) b = Some j'"
  shows "j' = j"
proof (cases "fs_key (info_file b) = []")
  case True
  with assms ledger_document_root show ?thesis by simp
next
  case False
  with assms show ?thesis
    by (auto simp: ledger_document_def path_exists_def read_json_def lookup_put_node fault_put_node
          split: if_splits)
qed

lemma write_json_ledger:
  assumes "ledger_document (snd (write_json w (info_file b) j)) b = Some doc'"
  shows "ledger_document w b = Some doc' \<or> doc' = j"
proof (cases "fault w (OpenWrite (fs_key (info_file b))) \<or> is_dir w (info_file b)")
  case True
  with assms show ?thesis by (auto simp: write_json_def)
next
  case False
  show ?thesis
  proof (cases "fault w (WriteData (fs_key (info_file b)))")
    case True
    with False assms have
      "ledger_document (put_node (info_file b) (File (Raw []) (now_epoch w)) w) b = Some doc'"
      by (simp add: write_json_def)
    from ledger_document_put_raw [OF this] assms ledger_document_root show ?thesis by simp
  next
    case nw: False
    with False assms have
      "ledger_document (put_node (info_file b) (File (JsonText j) (now_epoch w)) w) b = Some doc'"
      by (simp add: write_json_def)
    from ledger_document_put_text [OF this] show ?thesis by simp
  qed
qed

lemma update_backup_info_result:
  assumes "ledger_document (snd (update_backup_info w b s data key)) b = Some doc'"
  shows "ledger_document w b = Some doc'
         \<or> (\<exists>doc. (ledger_document w b = Some doc \<or> doc = JDict [])
                \<and> update_section doc s data key = Inr doc')"
proof -
  define doc0 where "doc0 = (if path_exists w (info_file b)
                             then read_json w (info_file b) else Inr (JDict []))"
  show ?thesis
  proof (cases doc0)
    case (Inl e)
    then have "snd (update_backup_info w b s data key) = w"
      by (auto simp: doc0_def update_backup_info_def bind_r_def lift_def catch_def ret_def
            split: if_splits)
    with assms show ?thesis by simp
  next
    case (Inr doc)
    then have src: "ledger_document w b = Some doc \<or> doc = JDict []"
      by (auto simp: doc0_def ledger_document_def split: if_splits)
    show ?thesis
    proof (cases "update_section doc s data key")
      case e: (Inl e)
      with Inr have "snd (update_backup_info w b s data key) = w"
        by (auto simp: doc0_def update_backup_info_def bind_r_def lift_def catch_def ret_def
              split: if_splits)
      with assms show ?thesis by simp
    next
      case n: (Inr new_info)
      with Inr have "snd (update_backup_info w b s data key)
                     = snd (write_json w (info_file b) new_info)"
        by (cases "write_json w (info_file b) new_info")
           (auto simp: doc0_def update_backup_info_def bind_r_def lift_def catch_def ret_def
              split: if_splits sum.splits)
      with assms write_json_ledger [of w b new_info doc'] src n show ?thesis by auto
    qed
  qed
qed

lemma update_backup_info_engine_written:
  assumes "capture_update s data key"
      and "\<And>doc. ledger_document w b = Some doc \<Longrightarrow> engine_written doc"
      and "ledger_document (snd (update_backup_info w b s data key)) b = Some doc'"
  shows "engine_written doc'"
  using update_backup_info_result [OF assms(3)] assms(1,2) update_section_engine_written
  by blast

lemma create_operation_backup_engine_written:
  assumes "create_operation_backup w operation_name = (Inr b, w')"
      and "ledger_document w' b = Some doc"
  shows "engine_written doc"
proof -
  let ?ts = "now_stamp w"
  from assms(1) have b: "b = operation_name @ ''_'' @ ?ts"
    and w': "w' = snd (write_json w (info_file b) (new_backup_info operation_name ?ts))"
    and ok: "fst (write_json w (info_file b) (new_backup_info operation_name ?ts)) = Inr ()"
    by (auto simp: create_operation_backup_def Let_def bind_r_def ret_def
          split: prod.splits sum.splits)
  from ok have "w' = put_node (info_file b) (File (JsonText (new_backup_info operation_name ?ts))
                        (now_epoch w)) w"
    unfolding w' by (auto simp: write_json_def split: if_splits)
  with assms(2) ledger_document_put_text have "doc = new_backup_info operation_name ?ts"
    by blast
  then show ?thesis by (simp add: new_backup_info_engine_written)
qed



end
